theory Spec2Isabelle
  imports Main "HOL-Library.AList" "HOL-Library.Multiset"
begin

section \<open>Errors\<close>

text \<open>
  The exceptions of \<^verbatim>\<open>graph_tensor_ops.py\<close>. Every \<^verbatim>\<open>ValueError\<close> the module raises is
  told apart by its message. \<open>FrameworkError\<close> is an exception raised inside a primitive
  of the tensor framework or inside a registered reduction (an index out of range, a
  failed \<^verbatim>\<open>tf.debugging\<close> assertion, a tensor kind the primitive does not take).
\<close>

datatype value_error =
    NotScalarGraphTensor
  | OneOfFeatureNameOrValue
  | UnknownReduceType string
  | ReduceOperationExists
  | NamesAndTag
  | UnsupportedFeature string

datatype error = ValueError value_error | KeyError | AssertionError | FrameworkError

fun is_ValueError :: "error \<Rightarrow> bool" where
  "is_ValueError (ValueError _) = True"
| "is_ValueError _ = False"

definition framework :: "'a option \<Rightarrow> error + 'a" where
  "framework r = (case r of None \<Rightarrow> Inl FrameworkError | Some x \<Rightarrow> Inr x)"

definition lookup :: "(string \<times> 'a) list \<Rightarrow> string \<Rightarrow> error + 'a" where
  \<comment> \<open>\<^verbatim>\<open>d[k]\<close> on a Python dict, kept as an association list in insertion order.\<close>
  "lookup d k = (case map_of d k of None \<Rightarrow> Inl KeyError | Some v \<Rightarrow> Inr v)"

fun and_then :: "error + 'a \<Rightarrow> ('a \<Rightarrow> error + 'b) \<Rightarrow> error + 'b" where
  \<comment> \<open>Sequencing: an exception ends the call.\<close>
  "and_then (Inl e) f = Inl e"
| "and_then (Inr x) f = f x"

section \<open>Fields\<close>

text \<open>
  A feature (\<^verbatim>\<open>Field\<close>) is indexed by its outer dimension. A dense tensor of shape
  \<^verbatim>\<open>[n, f1..fk]\<close> is the list of its \<open>n\<close> rows, a ragged tensor the list of its rows of
  varying length (\<^verbatim>\<open>values\<close> is their concatenation, the row partition their lengths).
  \<open>OtherTensor\<close> is any value that is neither (a sparse tensor, say).
\<close>

datatype 'v field = Dense "'v list" | Ragged "'v list list" | OtherTensor

text \<open>
  \<^verbatim>\<open>UnsortedReduceOp = Callable[[Field, tf.Tensor, Union[tf.Tensor, int]], Field]\<close>:
  feature, segment ids, number of segments. \<open>None\<close> is the callable raising.
\<close>

type_synonym 'v UnsortedReduceOp = "'v field \<Rightarrow> nat list \<Rightarrow> nat \<Rightarrow> 'v field option"

section \<open>Primitives of the tensor framework\<close>

text \<open>
  \<^verbatim>\<open>tf.gather(params, indices)\<close> along the outer dimension; an index out of range is an
  error (as on CPU).
\<close>

fun tf_gather :: "'v field \<Rightarrow> nat list \<Rightarrow> 'v field option" where
  "tf_gather (Dense xs) idx =
     (if list_all (\<lambda>i. i < length xs) idx then Some (Dense (map (\<lambda>i. xs ! i) idx)) else None)"
| "tf_gather (Ragged rs) idx =
     (if list_all (\<lambda>i. i < length rs) idx then Some (Ragged (map (\<lambda>i. rs ! i) idx)) else None)"
| "tf_gather OtherTensor idx = None"

text \<open>
  \<^verbatim>\<open>tf.math.unsorted_segment_sum(data, segment_ids, num_segments)\<close>: row \<open>s\<close> of the output
  is the sum of the rows of \<open>data\<close> whose segment id is \<open>s\<close>, zero for an empty segment.
  The segment ids have one entry per row and lie below \<open>num_segments\<close> (checked, as on
  CPU). Rows of a ragged tensor are added position by position, the result as long as the
  longest of them.
\<close>

definition segment_rows :: "'r list \<Rightarrow> nat list \<Rightarrow> nat \<Rightarrow> 'r list" where
  "segment_rows xs ids s = map fst (filter (\<lambda>p. snd p = s) (zip xs ids))"

fun row_add :: "'v::comm_monoid_add list \<Rightarrow> 'v list \<Rightarrow> 'v list" where
  "row_add [] ys = ys"
| "row_add (x # xs) [] = x # xs"
| "row_add (x # xs) (y # ys) = (x + y) # row_add xs ys"

fun unsorted_segment_sum :: "'v::comm_monoid_add UnsortedReduceOp" where
  "unsorted_segment_sum (Dense xs) ids n =
     (if length ids = length xs \<and> list_all (\<lambda>i. i < n) ids
      then Some (Dense (map (\<lambda>s. sum_list (segment_rows xs ids s)) [0..<n]))
      else None)"
| "unsorted_segment_sum (Ragged rs) ids n =
     (if length ids = length rs \<and> list_all (\<lambda>i. i < n) ids
      then Some (Ragged (map (\<lambda>s. foldr row_add (segment_rows rs ids s) []) [0..<n]))
      else None)"
| "unsorted_segment_sum OtherTensor ids n = None"

text \<open>
  The other four reductions of the framework are taken as they come: nothing below
  depends on what they compute.
\<close>

record 'v tf_math =
  unsorted_segment_mean :: "'v UnsortedReduceOp"
  unsorted_segment_max :: "'v UnsortedReduceOp"
  unsorted_segment_min :: "'v UnsortedReduceOp"
  unsorted_segment_prod :: "'v UnsortedReduceOp"

section \<open>The reduction registry\<close>

type_synonym 'v registry = "(string \<times> 'v UnsortedReduceOp) list"

definition REGISTERED_REDUCE_OPS :: "'v::comm_monoid_add tf_math \<Rightarrow> 'v registry" where
  "REGISTERED_REDUCE_OPS tf =
     [(''sum'', unsorted_segment_sum),
      (''mean'', unsorted_segment_mean tf),
      (''max'', unsorted_segment_max tf),
      (''min'', unsorted_segment_min tf),
      (''prod'', unsorted_segment_prod tf)]"

definition get_registered_reduce_operation_names :: "'v registry \<Rightarrow> string list" where
  "get_registered_reduce_operation_names reg = map fst reg"

text \<open>
  \<^verbatim>\<open>register_reduce_operation\<close> mutates the module-level dict: the model returns the
  outcome of the call together with the registry after it. The registry is an argument
  of every function that reads it. A value of the type of reductions is callable, so the
  assertion \<^verbatim>\<open>callable(unsorted_reduce_op)\<close> holds.
\<close>

definition register_reduce_operation ::
  "string \<Rightarrow> 'v UnsortedReduceOp \<Rightarrow> bool \<Rightarrow> 'v registry \<Rightarrow> (error + unit) \<times> 'v registry" where
  "register_reduce_operation reduce_type unsorted_reduce_op allow_override reg =
     (if \<not> allow_override \<and> reduce_type \<in> set (map fst reg)
      then (Inl (ValueError ReduceOperationExists), reg)
      else (Inr (), AList.update reduce_type unsorted_reduce_op reg))"

definition resolve_reduce_op :: "'v registry \<Rightarrow> string \<Rightarrow> error + 'v UnsortedReduceOp" where
  "resolve_reduce_op reg reduce_type =
     (case map_of reg reduce_type of
        Some op \<Rightarrow> Inr op
      | None \<Rightarrow> Inl (ValueError (UnknownReduceType reduce_type)))"

definition resolve_value ::
  "(string \<times> 'v field) list \<Rightarrow> 'v field option \<Rightarrow> string option \<Rightarrow> error + 'v field" where
  "resolve_value values_map feature_value feature_name =
     (if (feature_value = None) = (feature_name = None)
      then Inl (ValueError OneOfFeatureNameOrValue)
      else (case feature_value of
              Some v \<Rightarrow> Inr v
            | None \<Rightarrow> (case feature_name of
                         Some n \<Rightarrow> lookup values_map n
                       | None \<Rightarrow> Inl AssertionError)))"

section \<open>Graph tensors\<close>

text \<open>
  Modelled from the spec: the classes of \<^verbatim>\<open>graph_tensor.py\<close> (\<^verbatim>\<open>GraphTensor\<close>, \<^verbatim>\<open>Context\<close>,
  \<^verbatim>\<open>NodeSet\<close>, \<^verbatim>\<open>EdgeSet\<close>, the adjacency) are not among the sources. A graph tensor is
  a container of node sets, edge sets and a context, each holding named features and the
  sizes of its graph components; an edge set has in addition an adjacency, which gives
  for an incidence tag the name of the incident node set and, per edge, the index of the
  incident node. \<open>spec_total_size\<close> is \<^verbatim>\<open>spec.total_size\<close>, the total size when it is known
  statically. Dicts are association lists in insertion order; sizes, tags and node
  indices are natural numbers.
\<close>

record 'v graph_piece =
  features :: "(string \<times> 'v field) list"
  sizes :: "nat list"
  spec_total_size :: "nat option"

record 'v edge_set = "'v graph_piece" +
  adjacency :: "nat \<Rightarrow> (string \<times> nat list) option"

record 'v graph_tensor =
  rank :: nat
  gt_context :: "'v graph_piece"
  node_sets :: "(string \<times> 'v graph_piece) list"
  edge_sets :: "(string \<times> 'v edge_set) list"

definition total_size :: "('v, 'm) graph_piece_scheme \<Rightarrow> nat" where
  "total_size p = sum_list (sizes p)"

datatype tag = CONTEXT | NodeTag nat

definition check_scalar_graph_tensor :: "'v graph_tensor \<Rightarrow> error + unit" where
  \<comment> \<open>Modelled from the spec: a scalar graph tensor has rank 0; the check of
      \<^verbatim>\<open>graph_tensor.py\<close> raises a \<^verbatim>\<open>ValueError\<close> otherwise.\<close>
  "check_scalar_graph_tensor g =
     (if rank g \<noteq> 0 then Inl (ValueError NotScalarGraphTensor) else Inr ())"

definition adjacency_at ::
  "'v edge_set \<Rightarrow> nat \<Rightarrow> error + (string \<times> nat list)" where
  \<comment> \<open>\<^verbatim>\<open>adjacency.node_set_name(tag)\<close> and \<^verbatim>\<open>adjacency[tag]\<close>.\<close>
  "adjacency_at es node_tag =
     (case adjacency es node_tag of None \<Rightarrow> Inl KeyError | Some a \<Rightarrow> Inr a)"

subsection \<open>Helpers of \<^verbatim>\<open>tensor_utils.py\<close>\<close>

fun utils_repeat :: "'v field \<Rightarrow> nat list \<Rightarrow> nat option \<Rightarrow> 'v field option" where
  \<comment> \<open>Modelled from the spec: \<^verbatim>\<open>utils.repeat\<close> is not among the sources. Row \<open>i\<close> of the
      value is repeated \<open>repeats[i]\<close> times; the hint only fixes the static shape.\<close>
  "utils_repeat (Dense xs) repeats repeats_sum_hint =
     (if length xs = length repeats
      then Some (Dense (concat (map (\<lambda>(n, x). replicate n x) (zip repeats xs)))) else None)"
| "utils_repeat (Ragged rs) repeats repeats_sum_hint =
     (if length rs = length repeats
      then Some (Ragged (concat (map (\<lambda>(n, r). replicate n r) (zip repeats rs)))) else None)"
| "utils_repeat OtherTensor repeats repeats_sum_hint = None"

definition row_lengths_to_row_ids :: "nat list \<Rightarrow> nat option \<Rightarrow> nat list" where
  \<comment> \<open>Modelled from the spec: \<^verbatim>\<open>utils.row_lengths_to_row_ids\<close> is not among the sources.
      Component \<open>i\<close> of size \<open>n\<close> gives \<open>n\<close> times the id \<open>i\<close>.\<close>
  "row_lengths_to_row_ids row_lengths sum_row_lengths_hint =
     concat (map (\<lambda>(i, n). replicate n i) (zip [0..<length row_lengths] row_lengths))"

definition outer_dimension_size :: "nat list \<Rightarrow> nat" where
  \<comment> \<open>Modelled from the spec: \<^verbatim>\<open>utils.outer_dimension_size\<close>, here of the sizes tensor.\<close>
  "outer_dimension_size xs = length xs"

section \<open>Broadcast, pool and gather\<close>

definition broadcast_node_to_edges ::
  "'v graph_tensor \<Rightarrow> string \<Rightarrow> nat \<Rightarrow> 'v field option \<Rightarrow> string option \<Rightarrow> error + 'v field" where
  "broadcast_node_to_edges graph_tensor edge_set_name node_tag feature_value feature_name =
     and_then (check_scalar_graph_tensor graph_tensor) (\<lambda>_.
     and_then (lookup (edge_sets graph_tensor) edge_set_name) (\<lambda>es.
     and_then (adjacency_at es node_tag) (\<lambda>(node_name, index).
     and_then (lookup (node_sets graph_tensor) node_name) (\<lambda>ns.
     and_then (resolve_value (features ns) feature_value feature_name) (\<lambda>node_value.
     framework (tf_gather node_value index))))))"

definition pool_edges_to_node ::
  "'v registry \<Rightarrow> 'v graph_tensor \<Rightarrow> string \<Rightarrow> nat \<Rightarrow> string \<Rightarrow> 'v field option \<Rightarrow> string option
     \<Rightarrow> error + 'v field" where
  "pool_edges_to_node reg graph_tensor edge_set_name node_tag reduce_type feature_value feature_name =
     and_then (check_scalar_graph_tensor graph_tensor) (\<lambda>_.
     and_then (resolve_reduce_op reg reduce_type) (\<lambda>unsorted_reduce_op.
     and_then (lookup (edge_sets graph_tensor) edge_set_name) (\<lambda>es.
     and_then (resolve_value (features es) feature_value feature_name) (\<lambda>edge_value.
     and_then (adjacency_at es node_tag) (\<lambda>(node_name, index).
     and_then (lookup (node_sets graph_tensor) node_name) (\<lambda>node_set.
     let total_node_count =
           (case spec_total_size node_set of None \<Rightarrow> total_size node_set | Some n \<Rightarrow> n)
     in framework (unsorted_reduce_op edge_value index total_node_count)))))))"

definition broadcast_context ::
  "'v graph_tensor \<Rightarrow> ('v, 'm) graph_piece_scheme \<Rightarrow> 'v field option \<Rightarrow> string option
     \<Rightarrow> error + 'v field" where
  "broadcast_context graph_tensor node_or_edge_set feature_value feature_name =
     and_then (check_scalar_graph_tensor graph_tensor) (\<lambda>_.
     and_then (resolve_value (features (gt_context graph_tensor)) feature_value feature_name)
       (\<lambda>context_value.
     framework (utils_repeat context_value (sizes node_or_edge_set)
                  (spec_total_size node_or_edge_set))))"

definition pool_to_context ::
  "'v registry \<Rightarrow> 'v graph_tensor \<Rightarrow> ('v, 'm) graph_piece_scheme \<Rightarrow> string
     \<Rightarrow> 'v field option \<Rightarrow> string option \<Rightarrow> error + 'v field" where
  "pool_to_context reg graph_tensor node_or_edge_set reduce_type feature_value feature_name =
     and_then (check_scalar_graph_tensor graph_tensor) (\<lambda>_.
     and_then (resolve_value (features node_or_edge_set) feature_value feature_name) (\<lambda>value.
     and_then (resolve_reduce_op reg reduce_type) (\<lambda>unsorted_reduce_op.
     framework (unsorted_reduce_op value
                  (row_lengths_to_row_ids (sizes node_or_edge_set)
                     (spec_total_size node_or_edge_set))
                  (outer_dimension_size (sizes node_or_edge_set))))))"

definition broadcast_context_to_nodes ::
  "'v graph_tensor \<Rightarrow> string \<Rightarrow> 'v field option \<Rightarrow> string option \<Rightarrow> error + 'v field" where
  "broadcast_context_to_nodes graph_tensor node_set_name feature_value feature_name =
     and_then (lookup (node_sets graph_tensor) node_set_name) (\<lambda>ns.
     broadcast_context graph_tensor ns feature_value feature_name)"

definition broadcast_context_to_edges ::
  "'v graph_tensor \<Rightarrow> string \<Rightarrow> 'v field option \<Rightarrow> string option \<Rightarrow> error + 'v field" where
  "broadcast_context_to_edges graph_tensor edge_set_name feature_value feature_name =
     and_then (lookup (edge_sets graph_tensor) edge_set_name) (\<lambda>es.
     broadcast_context graph_tensor es feature_value feature_name)"

definition pool_nodes_to_context ::
  "'v registry \<Rightarrow> 'v graph_tensor \<Rightarrow> string \<Rightarrow> string \<Rightarrow> 'v field option \<Rightarrow> string option
     \<Rightarrow> error + 'v field" where
  "pool_nodes_to_context reg graph_tensor node_set_name reduce_type feature_value feature_name =
     and_then (lookup (node_sets graph_tensor) node_set_name) (\<lambda>ns.
     pool_to_context reg graph_tensor ns reduce_type feature_value feature_name)"

definition pool_edges_to_context ::
  "'v registry \<Rightarrow> 'v graph_tensor \<Rightarrow> string \<Rightarrow> string \<Rightarrow> 'v field option \<Rightarrow> string option
     \<Rightarrow> error + 'v field" where
  "pool_edges_to_context reg graph_tensor edge_set_name reduce_type feature_value feature_name =
     and_then (lookup (edge_sets graph_tensor) edge_set_name) (\<lambda>es.
     pool_to_context reg graph_tensor es reduce_type feature_value feature_name)"

definition validate_names_and_tag :: "tag \<Rightarrow> string option \<Rightarrow> string option \<Rightarrow> error + unit" where
  "validate_names_and_tag t edge_set_name node_set_name =
     (if t = CONTEXT
      then (let num_names = (if edge_set_name = None then 1 else 0)
                          + (if node_set_name = None then 1 else (0::nat))
            in if num_names \<noteq> 1 then Inl (ValueError NamesAndTag) else Inr ())
      else (if edge_set_name = None \<or> node_set_name \<noteq> None
            then Inl (ValueError NamesAndTag) else Inr ()))"

text \<open>
  The generic \<^verbatim>\<open>broadcast\<close> and \<^verbatim>\<open>pool\<close>. A set name that is \<^verbatim>\<open>None\<close> where the callee
  indexes a dict with it is no key of the dict.
\<close>

definition broadcast ::
  "'v graph_tensor \<Rightarrow> tag \<Rightarrow> string option \<Rightarrow> string option \<Rightarrow> 'v field option \<Rightarrow> string option
     \<Rightarrow> error + 'v field" where
  "broadcast graph_tensor from_tag edge_set_name node_set_name feature_value feature_name =
     and_then (validate_names_and_tag from_tag edge_set_name node_set_name) (\<lambda>_.
     case from_tag of
       CONTEXT \<Rightarrow>
         (case node_set_name of
            Some n \<Rightarrow> broadcast_context_to_nodes graph_tensor n feature_value feature_name
          | None \<Rightarrow>
              (case edge_set_name of
                 Some e \<Rightarrow> broadcast_context_to_edges graph_tensor e feature_value feature_name
               | None \<Rightarrow> Inl KeyError))
     | NodeTag node_tag \<Rightarrow>
         (case edge_set_name of
            Some e \<Rightarrow> broadcast_node_to_edges graph_tensor e node_tag feature_value feature_name
          | None \<Rightarrow> Inl KeyError))"

definition pool ::
  "'v registry \<Rightarrow> 'v graph_tensor \<Rightarrow> tag \<Rightarrow> string option \<Rightarrow> string option \<Rightarrow> string
     \<Rightarrow> 'v field option \<Rightarrow> string option \<Rightarrow> error + 'v field" where
  "pool reg graph_tensor to_tag edge_set_name node_set_name reduce_type feature_value feature_name =
     and_then (validate_names_and_tag to_tag edge_set_name node_set_name) (\<lambda>_.
     case to_tag of
       CONTEXT \<Rightarrow>
         (case node_set_name of
            Some n \<Rightarrow>
              pool_nodes_to_context reg graph_tensor n reduce_type feature_value feature_name
          | None \<Rightarrow>
              (case edge_set_name of
                 Some e \<Rightarrow>
                   pool_edges_to_context reg graph_tensor e reduce_type feature_value feature_name
               | None \<Rightarrow> Inl KeyError))
     | NodeTag node_tag \<Rightarrow>
         (case edge_set_name of
            Some e \<Rightarrow> pool_edges_to_node reg graph_tensor e node_tag reduce_type
                        feature_value feature_name
          | None \<Rightarrow> Inl KeyError))"

fun cumsum_exclusive :: "nat \<Rightarrow> nat list \<Rightarrow> nat list" where
  \<comment> \<open>\<^verbatim>\<open>tf.math.cumsum(sizes, exclusive=True)\<close>, the running total passed along.\<close>
  "cumsum_exclusive acc [] = []"
| "cumsum_exclusive acc (x # xs) = acc # cumsum_exclusive (acc + x) xs"

definition assert_positive :: "nat list \<Rightarrow> error + unit" where
  \<comment> \<open>\<^verbatim>\<open>tf.debugging.assert_positive\<close>: fails unless every entry is above zero.\<close>
  "assert_positive xs = (if list_all (\<lambda>x. 0 < x) xs then Inr () else Inl FrameworkError)"

definition gather_first_node ::
  "'v graph_tensor \<Rightarrow> string \<Rightarrow> 'v field option \<Rightarrow> string option \<Rightarrow> error + 'v field" where
  "gather_first_node graph_tensor node_set_name feature_value feature_name =
     and_then (check_scalar_graph_tensor graph_tensor) (\<lambda>_.
     and_then (lookup (node_sets graph_tensor) node_set_name) (\<lambda>node_set.
     and_then (resolve_value (features node_set) feature_value feature_name) (\<lambda>node_value.
     and_then (assert_positive (sizes node_set)) (\<lambda>_.
     let components_starts = cumsum_exclusive 0 (sizes node_set)
     in framework (tf_gather node_value components_starts)))))"

section \<open>Shuffling\<close>

text \<open>
  \<^verbatim>\<open>tf.random.shuffle(value, seed)\<close> permutes the rows of its argument at random. The
  draws of the random generator (for the given seeds) are a list of numbers, the state
  of the generator; a shuffle of \<open>n\<close> rows uses \<open>n\<close> of them, each row being put at the
  drawn place among the rows after it that are already placed (place 0 when the list has
  run out). Every order of the rows comes from some draws. The \<^verbatim>\<open>seed\<close> argument is part
  of what fixes the draws, so the functions below take the draws in its place and return
  the draws that are left.
\<close>

type_synonym rng = "nat list"

definition insert_at :: "nat \<Rightarrow> 'a \<Rightarrow> 'a list \<Rightarrow> 'a list" where
  "insert_at k x ys = take k ys @ x # drop k ys"

fun shuffle_with :: "rng \<Rightarrow> 'a list \<Rightarrow> 'a list" where
  "shuffle_with draws [] = []"
| "shuffle_with draws (x # xs) =
     insert_at ((case draws of [] \<Rightarrow> 0 | r # _ \<Rightarrow> r) mod (length xs + 1)) x
       (shuffle_with (tl draws) xs)"

definition tf_random_shuffle :: "'a list \<Rightarrow> rng \<Rightarrow> 'a list \<times> rng" where
  "tf_random_shuffle xs draws = (shuffle_with draws xs, drop (length xs) draws)"

definition tf_argsort :: "nat list \<Rightarrow> nat list" where
  \<comment> \<open>\<^verbatim>\<open>tf.argsort(values)\<close>: the indices in ascending order of their values, equal
      values in the order of their indices.\<close>
  "tf_argsort ks = sort_key (\<lambda>i. ks ! i) [0..<length ks]"

text \<open>The parts of a ragged tensor: its flat values, the row of each value, and the
  same row partition over other values.\<close>

definition ragged_values :: "'v list list \<Rightarrow> 'v list" where
  "ragged_values rs = concat rs"

definition value_rowids :: "'v list list \<Rightarrow> nat list" where
  "value_rowids rs = concat (map (\<lambda>(i, r). replicate (length r) i) (zip [0..<length rs] rs))"

fun with_values :: "'v list list \<Rightarrow> 'v list \<Rightarrow> 'v list list" where
  "with_values [] new_values = []"
| "with_values (r # rs) new_values =
     take (length r) new_values # with_values rs (drop (length r) new_values)"

definition shuffle_feature ::
  "(string \<times> 'v field) list \<Rightarrow> string \<Rightarrow> rng \<Rightarrow> error + ('v field \<times> rng)" where
  \<comment> \<open>The inner \<^verbatim>\<open>_shuffle(feature_name)\<close> of \<^verbatim>\<open>_shuffle_features\<close>.\<close>
  "shuffle_feature features' feature_name draws =
     and_then (lookup features' feature_name) (\<lambda>feature_value.
     case feature_value of
       Dense xs \<Rightarrow>
         (let (ys, draws') = tf_random_shuffle xs draws in Inr (Dense ys, draws'))
     | Ragged rs \<Rightarrow>
         (let (shuffled_value_rowids, draws') = tf_random_shuffle (value_rowids rs) draws
          in and_then (framework (tf_gather (Dense (ragged_values rs))
                                    (tf_argsort shuffled_value_rowids)))
               (\<lambda>gathered. case gathered of
                   Dense new_values \<Rightarrow> Inr (Ragged (with_values rs new_values), draws')
                 | _ \<Rightarrow> Inl FrameworkError))
     | OtherTensor \<Rightarrow> Inl (ValueError (UnsupportedFeature feature_name)))"

fun shuffle_feature_names ::
  "(string \<times> 'v field) list \<Rightarrow> string list \<Rightarrow> rng
     \<Rightarrow> error + ((string \<times> 'v field) list \<times> rng)" where
  \<comment> \<open>The dict comprehension over \<^verbatim>\<open>features.keys()\<close>, in the order of the keys.\<close>
  "shuffle_feature_names features' [] draws = Inr ([], draws)"
| "shuffle_feature_names features' (feature_name # names) draws =
     and_then (shuffle_feature features' feature_name draws) (\<lambda>(v, draws').
     and_then (shuffle_feature_names features' names draws') (\<lambda>(out, draws'').
     Inr ((feature_name, v) # out, draws'')))"

definition shuffle_features ::
  "(string \<times> 'v field) list \<Rightarrow> rng \<Rightarrow> error + ((string \<times> 'v field) list \<times> rng)" where
  "shuffle_features features' draws = shuffle_feature_names features' (map fst features') draws"

fun shuffle_sets ::
  "(string \<times> ('v, 'm) graph_piece_scheme) list \<Rightarrow> rng
     \<Rightarrow> error + ((string \<times> (string \<times> 'v field) list) list \<times> rng)" where
  \<comment> \<open>The loops over \<^verbatim>\<open>node_sets.items()\<close> and \<^verbatim>\<open>edge_sets.items()\<close>.\<close>
  "shuffle_sets [] draws = Inr ([], draws)"
| "shuffle_sets ((set_name, piece) # rest) draws =
     and_then (shuffle_features (features piece) draws) (\<lambda>(fs, draws').
     and_then (shuffle_sets rest draws') (\<lambda>(out, draws'').
     Inr ((set_name, fs) # out, draws'')))"

definition replace_in_sets ::
  "(string \<times> ('v, 'm) graph_piece_scheme) list \<Rightarrow> (string \<times> (string \<times> 'v field) list) list
     \<Rightarrow> (string \<times> ('v, 'm) graph_piece_scheme) list" where
  "replace_in_sets sets new =
     map (\<lambda>(set_name, piece).
            (set_name, case map_of new set_name of
                         Some fs \<Rightarrow> piece\<lparr>features := fs\<rparr>
                       | None \<Rightarrow> piece)) sets"

definition replace_features ::
  "'v graph_tensor \<Rightarrow> (string \<times> 'v field) list \<Rightarrow> (string \<times> (string \<times> 'v field) list) list
     \<Rightarrow> (string \<times> (string \<times> 'v field) list) list \<Rightarrow> 'v graph_tensor" where
  \<comment> \<open>Modelled from the spec: \<^verbatim>\<open>GraphTensor.replace_features\<close> is not among the sources.
      It returns the graph tensor with the features of the context and of the named
      node and edge sets replaced, and sizes and adjacency as they were.\<close>
  "replace_features graph_tensor context_features node_sets' edge_sets' =
     graph_tensor
       \<lparr>gt_context := (gt_context graph_tensor)\<lparr>features := context_features\<rparr>,
        node_sets := replace_in_sets (node_sets graph_tensor) node_sets',
        edge_sets := replace_in_sets (edge_sets graph_tensor) edge_sets'\<rparr>"

definition shuffle_scalar_components ::
  "'v graph_tensor \<Rightarrow> rng \<Rightarrow> error + ('v graph_tensor \<times> rng)" where
  "shuffle_scalar_components graph_tensor draws =
     and_then (check_scalar_graph_tensor graph_tensor) (\<lambda>_.
     and_then (shuffle_features (features (gt_context graph_tensor)) draws) (\<lambda>(context', d1).
     and_then (shuffle_sets (node_sets graph_tensor) d1) (\<lambda>(node_sets', d2).
     and_then (shuffle_sets (edge_sets graph_tensor) d2) (\<lambda>(edge_sets', d3).
     Inr (replace_features graph_tensor context' node_sets' edge_sets', d3)))))"

section \<open>Trajectory-length adaptation\<close>

text \<open>
  Modelled from the spec: \<^verbatim>\<open>gradient_based_trajectory_length_adaptation.py\<close> is not among
  the sources (only its test is). The kernel results are threaded through the protocol
  \<^verbatim>\<open>bootstrap_results\<close>, \<^verbatim>\<open>one_step\<close>; they carry the adaptation accumulators (the
  trajectory length and the running averages), which are updated per adaptation step
  and freeze after the adaptation horizon \<^verbatim>\<open>num_adaptation_steps\<close>. The numbers are of
  any type \<open>'a\<close>; the inner kernel's transition and the update of the accumulators are
  parameters of the kernel.
\<close>

record 'a accumulators =
  max_trajectory_length :: 'a
  averaged_sq_grad :: 'a
  averaged_max_trajectory_length :: 'a

record 'a kernel_results =
  step :: nat
  adaptation :: "'a accumulators"

record ('s, 'a) adaptation_kernel =
  num_adaptation_steps :: nat
  initial_accumulators :: "'s \<Rightarrow> 'a accumulators"
  inner_one_step :: "'s \<Rightarrow> 'a accumulators \<Rightarrow> 's"
  update_accumulators :: "'s \<Rightarrow> 's \<Rightarrow> 'a accumulators \<Rightarrow> 'a accumulators"

definition bootstrap_results :: "('s, 'a) adaptation_kernel \<Rightarrow> 's \<Rightarrow> 'a kernel_results" where
  "bootstrap_results kern state = \<lparr>step = 0, adaptation = initial_accumulators kern state\<rparr>"

definition one_step ::
  "('s, 'a) adaptation_kernel \<Rightarrow> 's \<times> 'a kernel_results \<Rightarrow> 's \<times> 'a kernel_results" where
  "one_step kern sr =
     (let (state, previous_kernel_results) = sr;
          new_state = inner_one_step kern state (adaptation previous_kernel_results)
      in (new_state,
          \<lparr>step = step previous_kernel_results + 1,
           adaptation =
             (if step previous_kernel_results < num_adaptation_steps kern
              then update_accumulators kern state new_state (adaptation previous_kernel_results)
              else adaptation previous_kernel_results)\<rparr>))"

primrec after_steps ::
  "('s, 'a) adaptation_kernel \<Rightarrow> 's \<Rightarrow> nat \<Rightarrow> 's \<times> 'a kernel_results" where
  \<comment> \<open>The state and the kernel results after \<open>m\<close> calls of \<^verbatim>\<open>one_step\<close>.\<close>
  "after_steps kern state 0 = (state, bootstrap_results kern state)"
| "after_steps kern state (Suc m) = one_step kern (after_steps kern state m)"

section \<open>Predicates of the properties\<close>

text \<open>
  The incidence of an edge set at a tag, as the list of the incident node of each edge,
  is one-to-one with the \<open>n\<close> nodes: every entry is a node, every node occurs once.
\<close>

definition one_edge_per_node :: "nat list \<Rightarrow> nat \<Rightarrow> bool" where
  "one_edge_per_node index n =
     (list_all (\<lambda>i. i < n) index
      \<and> list_all (\<lambda>k. length (filter (\<lambda>i. i = k) index) = 1) [0..<n])"

text \<open>A dense or ragged feature with \<open>n\<close> rows.\<close>

fun has_outer_size :: "'v field \<Rightarrow> nat \<Rightarrow> bool" where
  "has_outer_size (Dense xs) n = (length xs = n)"
| "has_outer_size (Ragged rs) n = (length rs = n)"
| "has_outer_size OtherTensor n = False"

text \<open>The static total size, when known, is the sum of the component sizes.\<close>

definition static_size_agrees :: "('v, 'm) graph_piece_scheme \<Rightarrow> bool" where
  "static_size_agrees p =
     (case spec_total_size p of None \<Rightarrow> True | Some n \<Rightarrow> n = total_size p)"

text \<open>What a shuffle may do to a feature: the rows of a dense tensor are rearranged; a
  ragged tensor keeps its row lengths, and its values are rearranged over the rows.\<close>

fun is_shuffle_of :: "'v field \<Rightarrow> 'v field \<Rightarrow> bool" where
  "is_shuffle_of (Dense xs) (Dense ys) = (mset ys = mset xs)"
| "is_shuffle_of (Ragged rs) (Ragged rs') =
     (map length rs' = map length rs \<and> mset (concat rs') = mset (concat rs))"
| "is_shuffle_of _ _ = False"

fun supported_field :: "'v field \<Rightarrow> bool" where
  "supported_field OtherTensor = False"
| "supported_field _ = True"

definition supported_features :: "(string \<times> 'v field) list \<Rightarrow> bool" where
  "supported_features fs =
     list_all (\<lambda>k. case map_of fs k of Some v \<Rightarrow> supported_field v | None \<Rightarrow> True) (map fst fs)"

definition all_supported :: "'v graph_tensor \<Rightarrow> bool" where
  "all_supported g =
     (supported_features (features (gt_context g))
      \<and> list_all (\<lambda>(n, p). supported_features (features p)) (node_sets g)
      \<and> list_all (\<lambda>(n, p). supported_features (features p)) (edge_sets g))"

definition features_shuffled :: "(string \<times> 'v field) list \<Rightarrow> (string \<times> 'v field) list \<Rightarrow> bool" where
  "features_shuffled fs fs' =
     (map fst fs' = map fst fs
      \<and> list_all (\<lambda>k. rel_option is_shuffle_of (map_of fs k) (map_of fs' k)) (map fst fs))"

definition piece_shuffled ::
  "('v, 'm) graph_piece_scheme \<Rightarrow> ('v, 'm) graph_piece_scheme \<Rightarrow> bool" where
  \<comment> \<open>Only the features differ, and they are shuffled.\<close>
  "piece_shuffled p p' =
     (p' = p\<lparr>features := features p'\<rparr> \<and> features_shuffled (features p) (features p'))"

definition sets_shuffled ::
  "(string \<times> ('v, 'm) graph_piece_scheme) list \<Rightarrow> (string \<times> ('v, 'm) graph_piece_scheme) list
     \<Rightarrow> bool" where
  "sets_shuffled sets sets' =
     (map fst sets' = map fst sets
      \<and> list_all (\<lambda>n. rel_option piece_shuffled (map_of sets n) (map_of sets' n)) (map fst sets))"

text \<open>
  Exactly one of \<^verbatim>\<open>feature_value\<close> and \<^verbatim>\<open>feature_name\<close> is given, and \<open>v\<close> is the
  explicit value if that is the one given, and otherwise the feature stored under the
  name.
\<close>

definition feature_given ::
  "(string \<times> 'v field) list \<Rightarrow> 'v field option \<Rightarrow> string option \<Rightarrow> 'v field \<Rightarrow> bool" where
  "feature_given values_map feature_value feature_name v =
     (case (feature_value, feature_name) of
        (Some v', None) \<Rightarrow> v' = v
      | (None, Some name) \<Rightarrow> map_of values_map name = Some v
      | _ \<Rightarrow> False)"

definition raises_ValueError :: "error + 'a \<Rightarrow> bool" where
  "raises_ValueError r = (case r of Inl e \<Rightarrow> is_ValueError e | Inr _ \<Rightarrow> False)"

section \<open>Concrete inputs\<close>

definition no_ops :: "nat tf_math" where
  \<comment> \<open>A framework whose four reductions always fail: enough for the examples below.\<close>
  "no_ops = \<lparr>unsorted_segment_mean = (\<lambda>_ _ _. None), unsorted_segment_max = (\<lambda>_ _ _. None),
     unsorted_segment_min = (\<lambda>_ _ _. None), unsorted_segment_prod = (\<lambda>_ _ _. None)\<rparr>"

definition paper0 :: "nat graph_piece" where
  "paper0 = \<lparr>features = [(''h'', Dense [10, 20, 30])], sizes = [2, 1], spec_total_size = None\<rparr>"

definition cites0 :: "nat edge_set" where
  "cites0 = \<lparr>features = [(''w'', Dense [1, 2, 3])], sizes = [2, 1], spec_total_size = Some 3,
              adjacency = (\<lambda>t. if t = 0 then Some (''paper'', [2, 0, 1])
                               else if t = 1 then Some (''paper'', [0, 0, 1]) else None)\<rparr>"

definition g0 :: "nat graph_tensor" where
  \<comment> \<open>Two components: papers 0, 1 and paper 2; three citations.\<close>
  "g0 = \<lparr>rank = 0,
          gt_context = \<lparr>features = [(''label'', Dense [7, 9])], sizes = [1, 1],
                        spec_total_size = Some 2\<rparr>,
          node_sets = [(''paper'', paper0)],
          edge_sets = [(''cites'', cites0)]\<rparr>"

definition R0 :: "nat registry" where
  "R0 = REGISTERED_REDUCE_OPS no_ops"

definition paper1 :: "nat graph_piece" where
  "paper1 = \<lparr>features = [(''h'', Dense [10, 20, 30])], sizes = [2, 0, 1], spec_total_size = None\<rparr>"

definition g1 :: "nat graph_tensor" where
  \<comment> \<open>As \<open>g0\<close>, with a component in the middle that has no paper.\<close>
  "g1 = g0\<lparr>node_sets := [(''paper'', paper1)]\<rparr>"

definition g4 :: "nat graph_tensor" where
  \<comment> \<open>As \<open>g0\<close>, without edge sets.\<close>
  "g4 = g0\<lparr>edge_sets := []\<rparr>"

text \<open>A graph tensor with a ragged context feature, and one with a feature that is
  neither dense nor ragged.\<close>

definition g2 :: "nat graph_tensor" where
  "g2 = g0\<lparr>gt_context :=
              \<lparr>features = [(''label'', Dense [7, 9]), (''tokens'', Ragged [[1, 2], [3]])],
               sizes = [1, 1], spec_total_size = Some 2\<rparr>\<rparr>"

definition g3 :: "nat graph_tensor" where
  "g3 = g0\<lparr>edge_sets := [(''cites'', cites0\<lparr>features := [(''w'', OtherTensor)]\<rparr>)]\<rparr>"

text \<open>A kernel over numbers that adapts for one step, as in the test
  \<^verbatim>\<open>testNumAdaptationSteps\<close>: each adaptation step adds the state to the trajectory length.\<close>

definition kernel0 :: "(nat, nat) adaptation_kernel" where
  "kernel0 = \<lparr>num_adaptation_steps = 1,
     initial_accumulators = (\<lambda>s. \<lparr>max_trajectory_length = 0, averaged_sq_grad = 0,
                                   averaged_max_trajectory_length = 0\<rparr>),
     inner_one_step = (\<lambda>s a. s + 3),
     update_accumulators =
       (\<lambda>s s' a. a\<lparr>max_trajectory_length := max_trajectory_length a + s'\<rparr>)\<rparr>"

section \<open>Properties\<close>

subsection \<open>The registry\<close>

text \<open>
  C2. At load time the registry holds exactly the five names sum, mean, max, min, prod,
  and \<^verbatim>\<open>get_registered_reduce_operation_names()\<close> returns exactly these, in this order.
\<close>

theorem registry_at_load_time:
  "get_registered_reduce_operation_names (REGISTERED_REDUCE_OPS tf)
     = [''sum'', ''mean'', ''max'', ''min'', ''prod'']
   \<and> dom (map_of (REGISTERED_REDUCE_OPS tf)) = {''sum'', ''mean'', ''max'', ''min'', ''prod''}"
  by (auto simp: get_registered_reduce_operation_names_def REGISTERED_REDUCE_OPS_def
           split: if_splits)

text \<open>
  C4. \<^verbatim>\<open>register_reduce_operation(reduce_type, unsorted_reduce_op=op, allow_override=False)\<close>
  raises a \<^verbatim>\<open>ValueError\<close> and leaves the registry unchanged when the name is already
  registered. When the name is not registered, or \<^verbatim>\<open>allow_override\<close> is set, the call
  maps the name to \<open>op\<close> and changes no other entry: a new name goes to the end of the
  names, a replaced one keeps its place.
\<close>

theorem register_reduce_operation_effect:
  "(\<not> allow_override \<and> map_of reg reduce_type \<noteq> None \<longrightarrow>
      register_reduce_operation reduce_type op allow_override reg
        = (Inl (ValueError ReduceOperationExists), reg))
   \<and> (allow_override \<or> map_of reg reduce_type = None \<longrightarrow>
      (\<exists>reg'. register_reduce_operation reduce_type op allow_override reg = (Inr (), reg')
         \<and> map_of reg' reduce_type = Some op
         \<and> (\<forall>k. k \<noteq> reduce_type \<longrightarrow> map_of reg' k = map_of reg k)
         \<and> get_registered_reduce_operation_names reg'
             = (if map_of reg reduce_type = None
                then get_registered_reduce_operation_names reg @ [reduce_type]
                else get_registered_reduce_operation_names reg)))"
  by (auto simp: register_reduce_operation_def update_conv' update_keys
        get_registered_reduce_operation_names_def map_of_eq_None_iff)

theorem register_reduce_operation_effect_witness:
  "register_reduce_operation ''sum'' (\<lambda>_ _ _. None) False (REGISTERED_REDUCE_OPS no_ops)
     = (Inl (ValueError ReduceOperationExists), REGISTERED_REDUCE_OPS no_ops)
   \<and> (\<exists>reg'. register_reduce_operation ''median'' (\<lambda>_ _ _. None) False (REGISTERED_REDUCE_OPS no_ops)
          = (Inr (), reg')
        \<and> map_of reg' ''median'' = Some (\<lambda>_ _ _. None)
        \<and> get_registered_reduce_operation_names reg'
            = [''sum'', ''mean'', ''max'', ''min'', ''prod'', ''median''])"
  using register_reduce_operation_effect [of False "REGISTERED_REDUCE_OPS no_ops" "''sum''" "\<lambda>_ _ _. None"]
    register_reduce_operation_effect [of False "REGISTERED_REDUCE_OPS no_ops" "''median''" "\<lambda>_ _ _. None"]
  by (auto simp: REGISTERED_REDUCE_OPS_def get_registered_reduce_operation_names_def)

subsection \<open>Helper facts\<close>

lemma and_then_eq_Inl:
  "and_then r f = Inl e \<longleftrightarrow> (r = Inl e \<or> (\<exists>x. r = Inr x \<and> f x = Inl e))"
  by (cases r) auto

lemma and_then_eq_Inr:
  "and_then r f = Inr y \<longleftrightarrow> (\<exists>x. r = Inr x \<and> f x = Inr y)"
  by (cases r) auto

lemma lookup_not_ValueError [simp]: "lookup d k \<noteq> Inl (ValueError ve)"
  by (simp add: lookup_def split: option.splits)

lemma framework_not_ValueError [simp]: "framework x \<noteq> Inl (ValueError ve)"
  by (simp add: framework_def split: option.splits)

lemma adjacency_at_not_ValueError [simp]: "adjacency_at es t \<noteq> Inl (ValueError ve)"
  by (simp add: adjacency_at_def split: option.splits)

lemma resolve_value_ValueError:
  "resolve_value m fv fn = Inl (ValueError ve)
     \<longleftrightarrow> ve = OneOfFeatureNameOrValue \<and> (fv = None) = (fn = None)"
  by (auto simp: resolve_value_def lookup_def split: option.splits)

lemma resolve_reduce_op_Inl:
  "resolve_reduce_op reg rt = Inl e \<longleftrightarrow> e = ValueError (UnknownReduceType rt) \<and> map_of reg rt = None"
  by (auto simp: resolve_reduce_op_def split: option.splits)

lemma resolve_reduce_op_Inr:
  "resolve_reduce_op reg rt = Inr op \<longleftrightarrow> map_of reg rt = Some op"
  by (auto simp: resolve_reduce_op_def split: option.splits)

lemma check_scalar_Inl:
  "check_scalar_graph_tensor g = Inl e \<longleftrightarrow> e = ValueError NotScalarGraphTensor \<and> rank g \<noteq> 0"
  by (auto simp: check_scalar_graph_tensor_def)

lemma check_scalar_Inr [simp]:
  "check_scalar_graph_tensor g = Inr u \<longleftrightarrow> rank g = 0"
  by (auto simp: check_scalar_graph_tensor_def)

lemma check_scalar_ok: "rank g = 0 \<Longrightarrow> check_scalar_graph_tensor g = Inr ()"
  by (simp add: check_scalar_graph_tensor_def)

lemma raises_ValueError_Inl [simp]: "raises_ValueError (Inl (ValueError ve))"
  by (simp add: raises_ValueError_def)

lemma resolve_value_bad:
  "(fv = None) = (fn = None) \<Longrightarrow> resolve_value m fv fn = Inl (ValueError OneOfFeatureNameOrValue)"
  by (simp add: resolve_value_def)

lemma resolve_value_by_value [simp]: "resolve_value m (Some v) None = Inr v"
  by (simp add: resolve_value_def)

lemma resolve_value_by_name [simp]: "resolve_value m None (Some name) = lookup m name"
  by (simp add: resolve_value_def)

lemmas pool_defs = pool_edges_to_node_def pool_nodes_to_context_def pool_edges_to_context_def
  pool_to_context_def

lemma g0_lookups:
  "rank g0 = 0"
  "lookup (node_sets g0) ''paper'' = Inr paper0"
  "lookup (edge_sets g0) ''cites'' = Inr cites0"
  by (simp_all add: g0_def lookup_def paper0_def cites0_def)

subsection \<open>Pooling and the reduce type\<close>

text \<open>
  C3. A pooling operation raises the \<^verbatim>\<open>ValueError\<close> that names the unknown reduce type
  exactly when the reduce type is no key of the registry at the time of the call, and
  applies the registered operation otherwise. \<^verbatim>\<open>pool_edges_to_node\<close> resolves the reduce
  type right after the check for a scalar graph tensor; the two operations that pool to
  the context first look up the node or edge set and resolve the feature, so for them the
  statement is about calls whose set and feature resolve. No pooling operation raises
  that error for a registered reduce type.
\<close>

theorem pooling_resolves_reduce_type:
  "(rank g = 0 \<longrightarrow>
      (pool_edges_to_node reg g e t rt fv fn = Inl (ValueError (UnknownReduceType rt))
         \<longleftrightarrow> map_of reg rt = None))
   \<and> (rank g = 0 \<and> lookup (node_sets g) n = Inr ns \<and> resolve_value (features ns) fv fn = Inr v \<longrightarrow>
      (pool_nodes_to_context reg g n rt fv fn = Inl (ValueError (UnknownReduceType rt))
         \<longleftrightarrow> map_of reg rt = None))
   \<and> (rank g = 0 \<and> lookup (edge_sets g) e = Inr es \<and> resolve_value (features es) fv fn = Inr w \<longrightarrow>
      (pool_edges_to_context reg g e rt fv fn = Inl (ValueError (UnknownReduceType rt))
         \<longleftrightarrow> map_of reg rt = None))
   \<and> (pool_nodes_to_context reg g n rt fv fn = Inl (ValueError (UnknownReduceType r))
        \<or> pool_edges_to_context reg g e rt fv fn = Inl (ValueError (UnknownReduceType r))
        \<or> pool_edges_to_node reg g e t rt fv fn = Inl (ValueError (UnknownReduceType r))
      \<longrightarrow> r = rt \<and> map_of reg rt = None)
   \<and> (map_of reg rt = Some op \<and> rank g = 0 \<and> lookup (edge_sets g) e = Inr es
        \<and> resolve_value (features es) fv fn = Inr w \<and> adjacency es t = Some (nn, idx)
        \<and> lookup (node_sets g) nn = Inr ns' \<longrightarrow>
      pool_edges_to_node reg g e t rt fv fn
        = framework (op w idx (case spec_total_size ns' of None \<Rightarrow> total_size ns' | Some k \<Rightarrow> k)))
   \<and> (map_of reg rt = Some op \<and> rank g = 0 \<and> lookup (node_sets g) n = Inr ns
        \<and> resolve_value (features ns) fv fn = Inr v \<longrightarrow>
      pool_nodes_to_context reg g n rt fv fn
        = framework (op v (row_lengths_to_row_ids (sizes ns) (spec_total_size ns))
                          (outer_dimension_size (sizes ns))))
   \<and> (map_of reg rt = Some op \<and> rank g = 0 \<and> lookup (edge_sets g) e = Inr es
        \<and> resolve_value (features es) fv fn = Inr w \<longrightarrow>
      pool_edges_to_context reg g e rt fv fn
        = framework (op w (row_lengths_to_row_ids (sizes es) (spec_total_size es))
                          (outer_dimension_size (sizes es))))"
  apply (intro conjI impI)
  subgoal by (auto simp: pool_edges_to_node_def and_then_eq_Inl resolve_reduce_op_Inl
        resolve_reduce_op_Inr check_scalar_Inl resolve_value_ValueError split: prod.splits)
  subgoal by (auto simp: pool_defs and_then_eq_Inl resolve_reduce_op_Inl
        resolve_reduce_op_Inr check_scalar_Inl resolve_value_ValueError)
  subgoal by (auto simp: pool_defs and_then_eq_Inl resolve_reduce_op_Inl
        resolve_reduce_op_Inr check_scalar_Inl resolve_value_ValueError)
  subgoal by (auto simp: pool_defs and_then_eq_Inl resolve_reduce_op_Inl
        resolve_reduce_op_Inr check_scalar_Inl resolve_value_ValueError split: prod.splits)
  subgoal by (auto simp: pool_defs and_then_eq_Inl resolve_reduce_op_Inl
        resolve_reduce_op_Inr check_scalar_Inl resolve_value_ValueError split: prod.splits)
  subgoal by (auto simp: pool_edges_to_node_def adjacency_at_def resolve_reduce_op_def
        check_scalar_graph_tensor_def)
  subgoal by (auto simp: pool_defs resolve_reduce_op_def check_scalar_graph_tensor_def)
  subgoal by (auto simp: pool_defs resolve_reduce_op_def check_scalar_graph_tensor_def)
  done

theorem pooling_resolves_reduce_type_witness:
  "pool_edges_to_node R0 g0 ''cites'' 1 ''median'' (Some (Dense [1, 2, 3])) None
     = Inl (ValueError (UnknownReduceType ''median''))
   \<and> pool_nodes_to_context R0 g0 ''paper'' ''median'' (Some (Dense [1, 2, 3])) None
     = Inl (ValueError (UnknownReduceType ''median''))
   \<and> pool_edges_to_context R0 g0 ''cites'' ''median'' (Some (Dense [1, 2, 3])) None
     = Inl (ValueError (UnknownReduceType ''median''))
   \<and> pool_edges_to_node R0 g0 ''cites'' 1 ''sum'' (Some (Dense [1, 2, 3])) None
     = Inr (Dense [3, 3, 0])
   \<and> pool_nodes_to_context R0 g0 ''paper'' ''sum'' (Some (Dense [1, 2, 3])) None
     = Inr (Dense [3, 3])
   \<and> pool_edges_to_context R0 g0 ''cites'' ''sum'' (Some (Dense [1, 2, 3])) None
     = Inr (Dense [3, 3])"
proof -
  have rv: "resolve_value m (Some (Dense [1, 2, 3 :: nat])) None = Inr (Dense [1, 2, 3])" for m
    by (simp add: resolve_value_def)
  have unknown: "map_of R0 ''median'' = None"
    and known: "map_of R0 ''sum'' = Some unsorted_segment_sum"
    by (simp_all add: R0_def REGISTERED_REDUCE_OPS_def)
  have adj: "adjacency cites0 1 = Some (''paper'', [0, 0, 1])"
    by (simp add: cites0_def)
  note M = pooling_resolves_reduce_type [where g = g0 and reg = R0 and e = "''cites''" and t = 1
      and rt = "''median''" and fv = "Some (Dense [1, 2, 3])" and fn = None and n = "''paper''"
      and v = "Dense [1, 2, 3]" and w = "Dense [1, 2, 3]" and ns = paper0 and es = cites0]
  note S = pooling_resolves_reduce_type [where g = g0 and reg = R0 and e = "''cites''" and t = 1
      and rt = "''sum''" and fv = "Some (Dense [1, 2, 3])" and fn = None and n = "''paper''"
      and v = "Dense [1, 2, 3]" and w = "Dense [1, 2, 3]" and op = unsorted_segment_sum
      and nn = "''paper''" and idx = "[0, 0, 1]" and ns = paper0 and ns' = paper0 and es = cites0]
  have e1: "framework (unsorted_segment_sum (Dense [1, 2, 3 :: nat]) [0, 0, 1]
              (case spec_total_size paper0 of None \<Rightarrow> total_size paper0 | Some k \<Rightarrow> k))
            = Inr (Dense [3, 3, 0])"
    by code_simp
  have e2: "framework (unsorted_segment_sum (Dense [1, 2, 3 :: nat])
              (row_lengths_to_row_ids (sizes paper0) (spec_total_size paper0))
              (outer_dimension_size (sizes paper0))) = Inr (Dense [3, 3])"
    by code_simp
  have e3: "framework (unsorted_segment_sum (Dense [1, 2, 3 :: nat])
              (row_lengths_to_row_ids (sizes cites0) (spec_total_size cites0))
              (outer_dimension_size (sizes cites0))) = Inr (Dense [3, 3])"
    by code_simp
  from M have "pool_edges_to_node R0 g0 ''cites'' 1 ''median'' (Some (Dense [1, 2, 3])) None
     = Inl (ValueError (UnknownReduceType ''median''))"
    and "pool_nodes_to_context R0 g0 ''paper'' ''median'' (Some (Dense [1, 2, 3])) None
     = Inl (ValueError (UnknownReduceType ''median''))"
    and "pool_edges_to_context R0 g0 ''cites'' ''median'' (Some (Dense [1, 2, 3])) None
     = Inl (ValueError (UnknownReduceType ''median''))"
    using g0_lookups rv unknown by blast+
  moreover from S have "pool_edges_to_node R0 g0 ''cites'' 1 ''sum'' (Some (Dense [1, 2, 3])) None
     = Inr (Dense [3, 3, 0])"
    using g0_lookups rv known adj e1 by metis
  moreover from S have "pool_nodes_to_context R0 g0 ''paper'' ''sum'' (Some (Dense [1, 2, 3])) None
     = Inr (Dense [3, 3])"
    using g0_lookups rv known e2 by metis
  moreover from S have "pool_edges_to_context R0 g0 ''cites'' ''sum'' (Some (Dense [1, 2, 3])) None
     = Inr (Dense [3, 3])"
    using g0_lookups rv known e3 by metis
  ultimately show ?thesis by blast
qed

subsection \<open>Feature value or feature name\<close>

lemma feature_given_iff:
  "resolve_value m fv fn = Inr v \<longleftrightarrow> feature_given m fv fn v"
  by (auto simp: resolve_value_def feature_given_def lookup_def split: option.splits)

lemma feature_given_resolve:
  "feature_given m fv fn v \<Longrightarrow> resolve_value m fv fn = Inr v"
  by (simp add: feature_given_iff)

lemmas context_defs = broadcast_context_to_nodes_def broadcast_context_to_edges_def
  broadcast_context_def

lemmas all_op_defs = broadcast_node_to_edges_def pool_edges_to_node_def context_defs
  pool_nodes_to_context_def pool_edges_to_context_def pool_to_context_def
  gather_first_node_def broadcast_def pool_def

text \<open>
  C5. \<^verbatim>\<open>resolve_value\<close> raises its \<^verbatim>\<open>ValueError\<close> exactly when both or neither of
  \<^verbatim>\<open>feature_value\<close> and \<^verbatim>\<open>feature_name\<close> are given, and returns a value exactly when
  one of them is given: the explicit value if present, otherwise the feature stored
  under the name. For every broadcast, pool and gather operation, and for the generic
  \<^verbatim>\<open>broadcast\<close> and \<^verbatim>\<open>pool\<close>, each under no more than that the sets it names exist:
  the call raises a \<^verbatim>\<open>ValueError\<close> when both or neither are given; on a scalar graph
  tensor with exactly one given, the call is the operation's gather, repeat or reduction
  applied to that value; a call by name equals the call with the value stored under the
  name; and with exactly one of the two given no operation raises the \<^verbatim>\<open>ValueError\<close> of
  \<^verbatim>\<open>resolve_value\<close>.
\<close>

theorem feature_value_xor_feature_name:
  "(resolve_value m fv fn = Inl (ValueError OneOfFeatureNameOrValue) \<longleftrightarrow> (fv = None) = (fn = None))
   \<and> resolve_value m (Some v) None = Inr v
   \<and> resolve_value m None (Some name) = lookup m name
   \<and> (resolve_value m fv fn = Inr v \<longleftrightarrow> feature_given m fv fn v)
   \<and> (lookup (edge_sets g) e = Inr es \<and> adjacency es t = Some (nn, idx)
        \<and> lookup (node_sets g) nn = Inr ns' \<longrightarrow>
       ((fv = None) = (fn = None) \<longrightarrow>
          raises_ValueError (broadcast_node_to_edges g e t fv fn)
          \<and> raises_ValueError (broadcast g (NodeTag t) (Some e) None fv fn))
       \<and> (rank g = 0 \<and> feature_given (features ns') fv fn v \<longrightarrow>
            broadcast_node_to_edges g e t fv fn = framework (tf_gather v idx)
            \<and> broadcast g (NodeTag t) (Some e) None fv fn = framework (tf_gather v idx))
       \<and> (rank g = 0 \<and> map_of reg rt = Some op \<and> feature_given (features es) fv fn v \<longrightarrow>
            pool_edges_to_node reg g e t rt fv fn
              = framework (op v idx (case spec_total_size ns' of
                                       None \<Rightarrow> total_size ns' | Some k \<Rightarrow> k))
            \<and> pool reg g (NodeTag t) (Some e) None rt fv fn
              = framework (op v idx (case spec_total_size ns' of
                                       None \<Rightarrow> total_size ns' | Some k \<Rightarrow> k)))
       \<and> (lookup (features ns') name = Inr v \<longrightarrow>
            broadcast_node_to_edges g e t None (Some name)
              = broadcast_node_to_edges g e t (Some v) None))
   \<and> (lookup (edge_sets g) e = Inr es \<longrightarrow>
       ((fv = None) = (fn = None) \<longrightarrow>
          raises_ValueError (pool_edges_to_node reg g e t rt fv fn)
          \<and> raises_ValueError (pool reg g (NodeTag t) (Some e) None rt fv fn)
          \<and> raises_ValueError (broadcast_context_to_edges g e fv fn)
          \<and> raises_ValueError (broadcast g CONTEXT (Some e) None fv fn)
          \<and> raises_ValueError (pool_edges_to_context reg g e rt fv fn)
          \<and> raises_ValueError (pool reg g CONTEXT (Some e) None rt fv fn))
       \<and> (rank g = 0 \<and> feature_given (features (gt_context g)) fv fn v \<longrightarrow>
            broadcast_context_to_edges g e fv fn
              = framework (utils_repeat v (sizes es) (spec_total_size es))
            \<and> broadcast g CONTEXT (Some e) None fv fn
              = framework (utils_repeat v (sizes es) (spec_total_size es)))
       \<and> (rank g = 0 \<and> map_of reg rt = Some op \<and> feature_given (features es) fv fn v \<longrightarrow>
            pool_edges_to_context reg g e rt fv fn
              = framework (op v (row_lengths_to_row_ids (sizes es) (spec_total_size es))
                                (outer_dimension_size (sizes es)))
            \<and> pool reg g CONTEXT (Some e) None rt fv fn
              = framework (op v (row_lengths_to_row_ids (sizes es) (spec_total_size es))
                                (outer_dimension_size (sizes es))))
       \<and> (lookup (features es) name = Inr v \<longrightarrow>
            pool_edges_to_node reg g e t rt None (Some name)
              = pool_edges_to_node reg g e t rt (Some v) None
            \<and> pool_edges_to_context reg g e rt None (Some name)
              = pool_edges_to_context reg g e rt (Some v) None)
       \<and> (lookup (features (gt_context g)) name = Inr v \<longrightarrow>
            broadcast_context_to_edges g e None (Some name)
              = broadcast_context_to_edges g e (Some v) None))
   \<and> (lookup (node_sets g) n = Inr ns \<longrightarrow>
       ((fv = None) = (fn = None) \<longrightarrow>
          raises_ValueError (broadcast_context_to_nodes g n fv fn)
          \<and> raises_ValueError (broadcast g CONTEXT None (Some n) fv fn)
          \<and> raises_ValueError (pool_nodes_to_context reg g n rt fv fn)
          \<and> raises_ValueError (pool reg g CONTEXT None (Some n) rt fv fn)
          \<and> raises_ValueError (gather_first_node g n fv fn))
       \<and> (rank g = 0 \<and> feature_given (features (gt_context g)) fv fn v \<longrightarrow>
            broadcast_context_to_nodes g n fv fn
              = framework (utils_repeat v (sizes ns) (spec_total_size ns))
            \<and> broadcast g CONTEXT None (Some n) fv fn
              = framework (utils_repeat v (sizes ns) (spec_total_size ns)))
       \<and> (rank g = 0 \<and> map_of reg rt = Some op \<and> feature_given (features ns) fv fn v \<longrightarrow>
            pool_nodes_to_context reg g n rt fv fn
              = framework (op v (row_lengths_to_row_ids (sizes ns) (spec_total_size ns))
                                (outer_dimension_size (sizes ns)))
            \<and> pool reg g CONTEXT None (Some n) rt fv fn
              = framework (op v (row_lengths_to_row_ids (sizes ns) (spec_total_size ns))
                                (outer_dimension_size (sizes ns))))
       \<and> (rank g = 0 \<and> feature_given (features ns) fv fn v \<longrightarrow>
            gather_first_node g n fv fn
              = and_then (assert_positive (sizes ns))
                  (\<lambda>_. framework (tf_gather v (cumsum_exclusive 0 (sizes ns)))))
       \<and> (lookup (features (gt_context g)) name = Inr v \<longrightarrow>
            broadcast_context_to_nodes g n None (Some name)
              = broadcast_context_to_nodes g n (Some v) None)
       \<and> (lookup (features ns) name = Inr v \<longrightarrow>
            pool_nodes_to_context reg g n rt None (Some name)
              = pool_nodes_to_context reg g n rt (Some v) None
            \<and> gather_first_node g n None (Some name) = gather_first_node g n (Some v) None))
   \<and> ((fv = None) \<noteq> (fn = None) \<longrightarrow>
        broadcast_node_to_edges g e t fv fn \<noteq> Inl (ValueError OneOfFeatureNameOrValue)
        \<and> pool_edges_to_node reg g e t rt fv fn \<noteq> Inl (ValueError OneOfFeatureNameOrValue)
        \<and> broadcast_context_to_nodes g n fv fn \<noteq> Inl (ValueError OneOfFeatureNameOrValue)
        \<and> broadcast_context_to_edges g e fv fn \<noteq> Inl (ValueError OneOfFeatureNameOrValue)
        \<and> pool_nodes_to_context reg g n rt fv fn \<noteq> Inl (ValueError OneOfFeatureNameOrValue)
        \<and> pool_edges_to_context reg g e rt fv fn \<noteq> Inl (ValueError OneOfFeatureNameOrValue)
        \<and> gather_first_node g n fv fn \<noteq> Inl (ValueError OneOfFeatureNameOrValue))"
  apply (intro conjI impI; (elim conjE)?)
  subgoal by (simp add: resolve_value_ValueError)
  subgoal by simp
  subgoal by simp
  subgoal by (rule feature_given_iff)
  subgoal by (auto simp: all_op_defs check_scalar_graph_tensor_def adjacency_at_def
        resolve_value_bad validate_names_and_tag_def resolve_reduce_op_def split: option.splits)
  subgoal by (auto simp: all_op_defs check_scalar_graph_tensor_def adjacency_at_def
        resolve_value_bad validate_names_and_tag_def resolve_reduce_op_def split: option.splits)
  subgoal by (auto simp: all_op_defs check_scalar_ok adjacency_at_def
        validate_names_and_tag_def resolve_reduce_op_def dest!: feature_given_resolve)
  subgoal by (auto simp: all_op_defs check_scalar_ok adjacency_at_def
        validate_names_and_tag_def resolve_reduce_op_def dest!: feature_given_resolve)
  subgoal by (auto simp: all_op_defs check_scalar_ok adjacency_at_def
        validate_names_and_tag_def resolve_reduce_op_def dest!: feature_given_resolve)
  subgoal by (auto simp: all_op_defs check_scalar_ok adjacency_at_def
        validate_names_and_tag_def resolve_reduce_op_def dest!: feature_given_resolve)
  subgoal by (simp add: all_op_defs check_scalar_graph_tensor_def adjacency_at_def)
  subgoal by (auto simp: all_op_defs check_scalar_graph_tensor_def adjacency_at_def
        resolve_value_bad validate_names_and_tag_def resolve_reduce_op_def split: option.splits)
  subgoal by (auto simp: all_op_defs check_scalar_graph_tensor_def adjacency_at_def
        resolve_value_bad validate_names_and_tag_def resolve_reduce_op_def split: option.splits)
  subgoal by (auto simp: all_op_defs check_scalar_graph_tensor_def adjacency_at_def
        resolve_value_bad validate_names_and_tag_def resolve_reduce_op_def split: option.splits)
  subgoal by (auto simp: all_op_defs check_scalar_graph_tensor_def adjacency_at_def
        resolve_value_bad validate_names_and_tag_def resolve_reduce_op_def split: option.splits)
  subgoal by (auto simp: all_op_defs check_scalar_graph_tensor_def adjacency_at_def
        resolve_value_bad validate_names_and_tag_def resolve_reduce_op_def split: option.splits)
  subgoal by (auto simp: all_op_defs check_scalar_graph_tensor_def adjacency_at_def
        resolve_value_bad validate_names_and_tag_def resolve_reduce_op_def split: option.splits)
  subgoal by (auto simp: all_op_defs check_scalar_ok adjacency_at_def
        validate_names_and_tag_def resolve_reduce_op_def dest!: feature_given_resolve)
  subgoal by (auto simp: all_op_defs check_scalar_ok adjacency_at_def
        validate_names_and_tag_def resolve_reduce_op_def dest!: feature_given_resolve)
  subgoal by (auto simp: all_op_defs check_scalar_ok adjacency_at_def
        validate_names_and_tag_def resolve_reduce_op_def dest!: feature_given_resolve)
  subgoal by (auto simp: all_op_defs check_scalar_ok adjacency_at_def
        validate_names_and_tag_def resolve_reduce_op_def dest!: feature_given_resolve)
  subgoal by (simp add: all_op_defs check_scalar_graph_tensor_def adjacency_at_def)
  subgoal by (simp add: all_op_defs check_scalar_graph_tensor_def adjacency_at_def)
  subgoal by (simp add: all_op_defs check_scalar_graph_tensor_def adjacency_at_def)
  subgoal by (auto simp: all_op_defs check_scalar_graph_tensor_def adjacency_at_def
        resolve_value_bad validate_names_and_tag_def resolve_reduce_op_def split: option.splits)
  subgoal by (auto simp: all_op_defs check_scalar_graph_tensor_def adjacency_at_def
        resolve_value_bad validate_names_and_tag_def resolve_reduce_op_def split: option.splits)
  subgoal by (auto simp: all_op_defs check_scalar_graph_tensor_def adjacency_at_def
        resolve_value_bad validate_names_and_tag_def resolve_reduce_op_def split: option.splits)
  subgoal by (auto simp: all_op_defs check_scalar_graph_tensor_def adjacency_at_def
        resolve_value_bad validate_names_and_tag_def resolve_reduce_op_def split: option.splits)
  subgoal by (auto simp: all_op_defs check_scalar_graph_tensor_def adjacency_at_def
        resolve_value_bad validate_names_and_tag_def resolve_reduce_op_def split: option.splits)
  subgoal by (auto simp: all_op_defs check_scalar_ok adjacency_at_def
        validate_names_and_tag_def resolve_reduce_op_def dest!: feature_given_resolve)
  subgoal by (auto simp: all_op_defs check_scalar_ok adjacency_at_def
        validate_names_and_tag_def resolve_reduce_op_def dest!: feature_given_resolve)
  subgoal by (auto simp: all_op_defs check_scalar_ok adjacency_at_def
        validate_names_and_tag_def resolve_reduce_op_def dest!: feature_given_resolve)
  subgoal by (auto simp: all_op_defs check_scalar_ok adjacency_at_def
        validate_names_and_tag_def resolve_reduce_op_def dest!: feature_given_resolve)
  subgoal by (auto simp: all_op_defs check_scalar_ok adjacency_at_def
        validate_names_and_tag_def resolve_reduce_op_def dest!: feature_given_resolve)
  subgoal by (simp add: all_op_defs check_scalar_graph_tensor_def adjacency_at_def)
  subgoal by (simp add: all_op_defs check_scalar_graph_tensor_def adjacency_at_def)
  subgoal by (simp add: all_op_defs check_scalar_graph_tensor_def adjacency_at_def)
  subgoal by (auto simp: all_op_defs and_then_eq_Inl check_scalar_Inl resolve_reduce_op_Inl
        resolve_value_ValueError assert_positive_def Let_def split: prod.splits if_splits)
  subgoal by (auto simp: all_op_defs and_then_eq_Inl check_scalar_Inl resolve_reduce_op_Inl
        resolve_value_ValueError assert_positive_def Let_def split: prod.splits if_splits)
  subgoal by (auto simp: all_op_defs and_then_eq_Inl check_scalar_Inl resolve_reduce_op_Inl
        resolve_value_ValueError assert_positive_def Let_def split: prod.splits if_splits)
  subgoal by (auto simp: all_op_defs and_then_eq_Inl check_scalar_Inl resolve_reduce_op_Inl
        resolve_value_ValueError assert_positive_def Let_def split: prod.splits if_splits)
  subgoal by (auto simp: all_op_defs and_then_eq_Inl check_scalar_Inl resolve_reduce_op_Inl
        resolve_value_ValueError assert_positive_def Let_def split: prod.splits if_splits)
  subgoal by (auto simp: all_op_defs and_then_eq_Inl check_scalar_Inl resolve_reduce_op_Inl
        resolve_value_ValueError assert_positive_def Let_def split: prod.splits if_splits)
  subgoal by (auto simp: all_op_defs and_then_eq_Inl check_scalar_Inl resolve_reduce_op_Inl
        resolve_value_ValueError assert_positive_def Let_def split: prod.splits if_splits)
  done

theorem feature_value_xor_feature_name_witness:
  "raises_ValueError (gather_first_node g4 ''paper'' None None)
   \<and> raises_ValueError (broadcast_context_to_nodes g4 ''paper'' None None)
   \<and> raises_ValueError (pool_nodes_to_context R0 g4 ''paper'' ''sum''
         (Some (Dense [10, 20, 30])) (Some ''h''))
   \<and> gather_first_node g4 ''paper'' None (Some ''h'') = Inr (Dense [10, 30])
   \<and> gather_first_node g4 ''paper'' (Some (Dense [4, 5, 6])) None = Inr (Dense [4, 6])
   \<and> broadcast_context_to_nodes g4 ''paper'' None (Some ''label'') = Inr (Dense [7, 7, 9])
   \<and> pool_nodes_to_context R0 g4 ''paper'' ''sum'' None (Some ''h'') = Inr (Dense [30, 30])
   \<and> raises_ValueError (broadcast_node_to_edges g0 ''cites'' 0 None None)
   \<and> raises_ValueError (pool_edges_to_node R0 g0 ''cites'' 0 ''sum'' None None)
   \<and> raises_ValueError (pool R0 g0 CONTEXT (Some ''cites'') None ''sum''
         (Some (Dense [1, 2, 3])) (Some ''w''))
   \<and> broadcast_node_to_edges g0 ''cites'' 0 None (Some ''h'') = Inr (Dense [30, 10, 20])
   \<and> pool_edges_to_node R0 g0 ''cites'' 0 ''sum'' None (Some ''w'') = Inr (Dense [2, 3, 1])
   \<and> broadcast_context_to_edges g0 ''cites'' (Some (Dense [7, 9])) None = Inr (Dense [7, 7, 9])
   \<and> pool_edges_to_context R0 g0 ''cites'' ''sum'' None (Some ''w'') = Inr (Dense [3, 3])
   \<and> broadcast_node_to_edges g0 ''cites'' 0 None (Some ''h'')
        = broadcast_node_to_edges g0 ''cites'' 0 (Some (Dense [10, 20, 30])) None
   \<and> gather_first_node g0 ''paper'' None (Some ''h'') \<noteq> Inl (ValueError OneOfFeatureNameOrValue)"
proof -
  have l4: "rank g4 = 0" "lookup (node_sets g4) ''paper'' = Inr paper0"
    by (simp_all add: g4_def g0_def lookup_def)
  have adj: "adjacency cites0 0 = Some (''paper'', [2, 0, 1])"
    by (simp add: cites0_def)
  have sum: "map_of R0 ''sum'' = Some unsorted_segment_sum"
    by (simp add: R0_def REGISTERED_REDUCE_OPS_def)
  have h: "feature_given (features paper0) None (Some ''h'') (Dense [10, 20, 30])"
    and hv: "feature_given (features paper0) (Some (Dense [4, 5, 6])) None (Dense [4, 5, 6])"
    and w: "feature_given (features cites0) None (Some ''w'') (Dense [1, 2, 3])"
    and l: "feature_given (features (gt_context g4)) None (Some ''label'') (Dense [7, 9])"
    and lv: "feature_given (features (gt_context g0)) (Some (Dense [7, 9])) None (Dense [7, 9])"
    and hl: "lookup (features paper0) ''h'' = Inr (Dense [10, 20, 30])"
    by (simp_all add: feature_given_def paper0_def cites0_def g4_def g0_def lookup_def)
  note N = feature_value_xor_feature_name [where g = g4 and n = "''paper''" and ns = paper0
      and reg = R0 and rt = "''sum''" and op = unsorted_segment_sum]
  note E = feature_value_xor_feature_name [where g = g0 and e = "''cites''" and es = cites0
      and t = 0 and nn = "''paper''" and idx = "[2, 0, 1]" and ns' = paper0
      and n = "''paper''" and ns = paper0
      and reg = R0 and rt = "''sum''" and op = unsorted_segment_sum]
  have n1: "raises_ValueError (gather_first_node g4 ''paper'' None None)"
    and n2: "raises_ValueError (broadcast_context_to_nodes g4 ''paper'' None None)"
    using N [where fv = None and fn = None] l4 by simp_all
  have n3: "raises_ValueError (pool_nodes_to_context R0 g4 ''paper'' ''sum''
         (Some (Dense [10, 20, 30])) (Some ''h''))"
    using N [where fv = "Some (Dense [10, 20, 30])" and fn = "Some ''h''"] l4 by simp
  have "gather_first_node g4 ''paper'' None (Some ''h'')
          = and_then (assert_positive (sizes paper0))
              (\<lambda>_. framework (tf_gather (Dense [10, 20, 30]) (cumsum_exclusive 0 (sizes paper0))))"
    using N [where fv = None and fn = "Some ''h''" and v = "Dense [10, 20, 30]"] l4 h by simp
  also have "\<dots> = Inr (Dense [10, 30])" by code_simp
  finally have n4: "gather_first_node g4 ''paper'' None (Some ''h'') = Inr (Dense [10, 30])" .
  have "gather_first_node g4 ''paper'' (Some (Dense [4, 5, 6])) None
          = and_then (assert_positive (sizes paper0))
              (\<lambda>_. framework (tf_gather (Dense [4, 5, 6]) (cumsum_exclusive 0 (sizes paper0))))"
    using N [where fv = "Some (Dense [4, 5, 6])" and fn = None and v = "Dense [4, 5, 6]"] l4 hv
    by simp
  also have "\<dots> = Inr (Dense [4, 6])" by code_simp
  finally have n5: "gather_first_node g4 ''paper'' (Some (Dense [4, 5, 6])) None
                      = Inr (Dense [4, 6])" .
  have "broadcast_context_to_nodes g4 ''paper'' None (Some ''label'')
          = framework (utils_repeat (Dense [7, 9]) (sizes paper0) (spec_total_size paper0))"
    using N [where fv = None and fn = "Some ''label''" and v = "Dense [7, 9]"] l4 l by simp
  also have "\<dots> = Inr (Dense [7, 7, 9])" by code_simp
  finally have n6: "broadcast_context_to_nodes g4 ''paper'' None (Some ''label'')
                      = Inr (Dense [7, 7, 9])" .
  have "pool_nodes_to_context R0 g4 ''paper'' ''sum'' None (Some ''h'')
          = framework (unsorted_segment_sum (Dense [10, 20, 30])
              (row_lengths_to_row_ids (sizes paper0) (spec_total_size paper0))
              (outer_dimension_size (sizes paper0)))"
    using N [where fv = None and fn = "Some ''h''" and v = "Dense [10, 20, 30]"] l4 h sum by simp
  also have "\<dots> = Inr (Dense [30, 30])" by code_simp
  finally have n7: "pool_nodes_to_context R0 g4 ''paper'' ''sum'' None (Some ''h'')
                      = Inr (Dense [30, 30])" .
  have e1: "raises_ValueError (broadcast_node_to_edges g0 ''cites'' 0 None None)"
    and e2: "raises_ValueError (pool_edges_to_node R0 g0 ''cites'' 0 ''sum'' None None)"
    using E [where fv = None and fn = None] g0_lookups adj by simp_all
  have e3: "raises_ValueError (pool R0 g0 CONTEXT (Some ''cites'') None ''sum''
         (Some (Dense [1, 2, 3])) (Some ''w''))"
    using E [where fv = "Some (Dense [1, 2, 3])" and fn = "Some ''w''"] g0_lookups adj by simp
  have "broadcast_node_to_edges g0 ''cites'' 0 None (Some ''h'')
          = framework (tf_gather (Dense [10, 20, 30]) [2, 0, 1])"
    using E [where fv = None and fn = "Some ''h''" and v = "Dense [10, 20, 30]"]
      g0_lookups adj h by simp
  also have "\<dots> = Inr (Dense [30, 10, 20])" by code_simp
  finally have e4: "broadcast_node_to_edges g0 ''cites'' 0 None (Some ''h'')
                      = Inr (Dense [30, 10, 20])" .
  have "pool_edges_to_node R0 g0 ''cites'' 0 ''sum'' None (Some ''w'')
          = framework (unsorted_segment_sum (Dense [1, 2, 3]) [2, 0, 1]
              (case spec_total_size paper0 of None \<Rightarrow> total_size paper0 | Some k \<Rightarrow> k))"
    using E [where fv = None and fn = "Some ''w''" and v = "Dense [1, 2, 3]"]
      g0_lookups adj w sum by simp
  also have "\<dots> = Inr (Dense [2, 3, 1])" by code_simp
  finally have e5: "pool_edges_to_node R0 g0 ''cites'' 0 ''sum'' None (Some ''w'')
                      = Inr (Dense [2, 3, 1])" .
  have "broadcast_context_to_edges g0 ''cites'' (Some (Dense [7, 9])) None
          = framework (utils_repeat (Dense [7, 9]) (sizes cites0) (spec_total_size cites0))"
    using E [where fv = "Some (Dense [7, 9])" and fn = None and v = "Dense [7, 9]"]
      g0_lookups lv by simp
  also have "\<dots> = Inr (Dense [7, 7, 9])" by code_simp
  finally have e6: "broadcast_context_to_edges g0 ''cites'' (Some (Dense [7, 9])) None
                      = Inr (Dense [7, 7, 9])" .
  have "pool_edges_to_context R0 g0 ''cites'' ''sum'' None (Some ''w'')
          = framework (unsorted_segment_sum (Dense [1, 2, 3])
              (row_lengths_to_row_ids (sizes cites0) (spec_total_size cites0))
              (outer_dimension_size (sizes cites0)))"
    using E [where fv = None and fn = "Some ''w''" and v = "Dense [1, 2, 3]"]
      g0_lookups w sum by simp
  also have "\<dots> = Inr (Dense [3, 3])" by code_simp
  finally have e7: "pool_edges_to_context R0 g0 ''cites'' ''sum'' None (Some ''w'')
                      = Inr (Dense [3, 3])" .
  have e8: "broadcast_node_to_edges g0 ''cites'' 0 None (Some ''h'')
        = broadcast_node_to_edges g0 ''cites'' 0 (Some (Dense [10, 20, 30])) None"
    using E [where name = "''h''" and v = "Dense [10, 20, 30]"] g0_lookups adj hl by simp
  have e9: "gather_first_node g0 ''paper'' None (Some ''h'')
              \<noteq> Inl (ValueError OneOfFeatureNameOrValue)"
    using E [where fv = None and fn = "Some ''h''"] by simp
  from n1 n2 n3 n4 n5 n6 n7 e1 e2 e3 e4 e5 e6 e7 e8 e9 show ?thesis by simp
qed

subsection \<open>Broadcast, then pool\<close>

lemma filter_eq_singleton:
  assumes "length (filter (\<lambda>i. i = k) index) = 1"
  shows "filter (\<lambda>i. i = k) index = [k]"
proof -
  obtain x where x: "filter (\<lambda>i. i = k) index = [x]"
    using assms by (cases "filter (\<lambda>i. i = k) index") auto
  then have "x \<in> set (filter (\<lambda>i. i = k) index)" by simp
  then have "x = k" by simp
  with x show ?thesis by simp
qed

lemma segment_rows_map:
  "segment_rows (map f index) index s = map f (filter (\<lambda>i. i = s) index)"
  by (induction index) (auto simp: segment_rows_def)

lemma segment_rows_single:
  assumes "one_edge_per_node index n" and "s < n"
  shows "segment_rows (map f index) index s = [f s]"
proof -
  from assms have "length (filter (\<lambda>i. i = s) index) = 1"
    by (simp add: one_edge_per_node_def list_all_iff)
  then show ?thesis
    by (simp add: segment_rows_map filter_eq_singleton)
qed

lemma row_add_Nil [simp]: "row_add r [] = r"
  by (cases r) simp_all

lemma gather_then_sum:
  assumes "one_edge_per_node index n" and "has_outer_size v n"
  shows "\<exists>b. tf_gather v index = Some b \<and> unsorted_segment_sum b index n = Some v"
proof (cases v)
  case (Dense xs)
  with assms have len: "length xs = n" by simp
  from assms(1) have inr: "list_all (\<lambda>i. i < n) index"
    by (simp add: one_edge_per_node_def)
  have "map (\<lambda>s. sum_list (segment_rows (map (\<lambda>i. xs ! i) index) index s)) [0..<n]
          = map (\<lambda>s. xs ! s) [0..<n]"
    by (rule map_cong) (simp_all add: segment_rows_single [OF assms(1)])
  also have "\<dots> = xs" using len map_nth [of xs] by simp
  finally show ?thesis using Dense len inr by simp
next
  case (Ragged rs)
  with assms have len: "length rs = n" by simp
  from assms(1) have inr: "list_all (\<lambda>i. i < n) index"
    by (simp add: one_edge_per_node_def)
  have "map (\<lambda>s. foldr row_add (segment_rows (map (\<lambda>i. rs ! i) index) index s) []) [0..<n]
          = map (\<lambda>s. rs ! s) [0..<n]"
    by (rule map_cong) (simp_all add: segment_rows_single [OF assms(1)])
  also have "\<dots> = rs" using len map_nth [of rs] by simp
  finally show ?thesis using Ragged len inr by simp
next
  case OtherTensor
  with assms show ?thesis by simp
qed

text \<open>
  C1. In a scalar graph tensor, let the incidence of an edge set at a tag be one-to-one
  with the nodes of the incident node set. Broadcasting a feature of these nodes to the
  edges and pooling the result back with reduce type \<^verbatim>\<open>'sum'\<close> returns the feature. The
  reduce type \<^verbatim>\<open>'sum'\<close> stands for \<^verbatim>\<open>tf.math.unsorted_segment_sum\<close>, as in the registry
  at load time.
\<close>

theorem broadcast_then_pool_sum_is_identity:
  assumes "rank g = 0"
    and "lookup (edge_sets g) e = Inr es"
    and "adjacency es t = Some (nn, index)"
    and "lookup (node_sets g) nn = Inr ns"
    and "static_size_agrees ns"
    and "one_edge_per_node index (total_size ns)"
    and "has_outer_size v (total_size ns)"
    and "map_of reg ''sum'' = Some unsorted_segment_sum"
  shows "\<exists>b. broadcast_node_to_edges g e t (Some v) None = Inr b
            \<and> pool_edges_to_node reg g e t ''sum'' (Some b) None = Inr v"
proof -
  from gather_then_sum [OF assms(6,7)] obtain b
    where b: "tf_gather v index = Some b"
      and s: "unsorted_segment_sum b index (total_size ns) = Some v"
    by blast
  have n: "(case spec_total_size ns of None \<Rightarrow> total_size ns | Some k \<Rightarrow> k) = total_size ns"
    using assms(5) by (simp add: static_size_agrees_def split: option.splits)
  have "broadcast_node_to_edges g e t (Some v) None = Inr b"
    using assms(1-4) b
    by (simp add: broadcast_node_to_edges_def adjacency_at_def framework_def check_scalar_ok)
  moreover have "pool_edges_to_node reg g e t ''sum'' (Some b) None = Inr v"
    using assms(1-4,8) s n
    by (simp add: pool_edges_to_node_def adjacency_at_def framework_def resolve_reduce_op_def
          check_scalar_ok)
  ultimately show ?thesis by blast
qed

theorem broadcast_then_pool_sum_is_identity_witness:
  "broadcast_node_to_edges g0 ''cites'' 0 (Some (Dense [10, 20, 30])) None = Inr (Dense [30, 10, 20])
   \<and> pool_edges_to_node R0 g0 ''cites'' 0 ''sum'' (Some (Dense [30, 10, 20])) None
       = Inr (Dense [10, 20, 30])"
proof -
  have adj: "adjacency cites0 0 = Some (''paper'', [2, 0, 1])"
    by (simp add: cites0_def)
  have a: "static_size_agrees paper0" by (simp add: static_size_agrees_def paper0_def)
  have t: "total_size paper0 = 3" by (simp add: total_size_def paper0_def)
  have o: "one_edge_per_node [2, 0, 1] (total_size paper0)" unfolding t by code_simp
  have h: "has_outer_size (Dense [10, 20, 30 :: nat]) (total_size paper0)" unfolding t by simp
  have r: "map_of R0 ''sum'' = Some unsorted_segment_sum"
    by (simp add: R0_def REGISTERED_REDUCE_OPS_def)
  have b: "broadcast_node_to_edges g0 ''cites'' 0 (Some (Dense [10, 20, 30])) None
             = Inr (Dense [30, 10, 20])"
    by (simp add: broadcast_node_to_edges_def g0_lookups adjacency_at_def adj paper0_def
          framework_def check_scalar_ok)
  from broadcast_then_pool_sum_is_identity [OF g0_lookups(1) g0_lookups(3) adj g0_lookups(2) a o h r]
  show ?thesis unfolding b by simp
qed

subsection \<open>The first node of each component\<close>

lemma length_cumsum_exclusive [simp]: "length (cumsum_exclusive acc xs) = length xs"
  by (induction xs arbitrary: acc) simp_all

lemma cumsum_exclusive_nth:
  "c < length xs \<Longrightarrow> cumsum_exclusive acc xs ! c = acc + sum_list (take c xs)"
proof (induction xs arbitrary: acc c)
  case Nil
  then show ?case by simp
next
  case (Cons x xs)
  then show ?case by (cases c) (simp_all add: add.assoc)
qed

lemma cumsum_exclusive_eq:
  "cumsum_exclusive 0 xs = map (\<lambda>c. sum_list (take c xs)) [0..<length xs]"
  by (rule nth_equalityI) (simp_all add: cumsum_exclusive_nth)

lemma start_below_total:
  assumes "list_all (\<lambda>s. 0 < s) xs" and "c < length xs"
  shows "sum_list (take c xs) < sum_list (xs :: nat list)"
proof -
  from assms(2) obtain y ys where d: "drop c xs = y # ys"
    by (cases "drop c xs") auto
  then have "y \<in> set xs" by (metis in_set_dropD list.set_intros(1))
  with assms(1) have "0 < y" by (simp add: list_all_iff)
  have "sum_list xs = sum_list (take c xs) + sum_list (drop c xs)"
    by (metis append_take_drop_id sum_list_append)
  with d \<open>0 < y\<close> show ?thesis by simp
qed

lemma starts_in_range:
  assumes "list_all (\<lambda>s. 0 < s) xs"
  shows "list_all (\<lambda>i. i < sum_list xs) (cumsum_exclusive 0 xs)"
  using assms by (auto simp: cumsum_exclusive_eq list_all_iff intro: start_below_total)

text \<open>
  C6. On a scalar graph tensor whose named node set has a positive size in every
  component, \<^verbatim>\<open>gather_first_node\<close> returns for each component the row of the feature at
  the component's first node, whose index is the exclusive cumulative sum of the sizes
  (the sum of the sizes of the components before it). When a component has no node, the
  call raises an error.
\<close>

theorem gather_first_node_reads_component_starts:
  assumes "rank g = 0"
    and "lookup (node_sets g) n = Inr ns"
    and "resolve_value (features ns) fv fn = Inr v"
  shows "(list_all (\<lambda>s. 0 < s) (sizes ns) \<and> v = Dense xs \<and> length xs = total_size ns \<longrightarrow>
            gather_first_node g n fv fn
              = Inr (Dense (map (\<lambda>c. xs ! sum_list (take c (sizes ns))) [0..<length (sizes ns)])))
       \<and> (list_all (\<lambda>s. 0 < s) (sizes ns) \<and> v = Ragged rs \<and> length rs = total_size ns \<longrightarrow>
            gather_first_node g n fv fn
              = Inr (Ragged (map (\<lambda>c. rs ! sum_list (take c (sizes ns))) [0..<length (sizes ns)])))
       \<and> (0 \<in> set (sizes ns) \<longrightarrow> gather_first_node g n fv fn = Inl FrameworkError)
       \<and> cumsum_exclusive 0 (sizes ns)
            = map (\<lambda>c. sum_list (take c (sizes ns))) [0..<length (sizes ns)]"
proof (intro conjI impI)
  show "cumsum_exclusive 0 (sizes ns)
            = map (\<lambda>c. sum_list (take c (sizes ns))) [0..<length (sizes ns)]"
    by (rule cumsum_exclusive_eq)
next
  assume a: "list_all (\<lambda>s. 0 < s) (sizes ns) \<and> v = Dense xs \<and> length xs = total_size ns"
  then have "list_all (\<lambda>i. i < length xs) (cumsum_exclusive 0 (sizes ns))"
    using starts_in_range [of "sizes ns"] by (simp add: total_size_def)
  with a assms show "gather_first_node g n fv fn
      = Inr (Dense (map (\<lambda>c. xs ! sum_list (take c (sizes ns))) [0..<length (sizes ns)]))"
    by (simp add: gather_first_node_def check_scalar_ok assert_positive_def framework_def
          cumsum_exclusive_eq comp_def)
next
  assume a: "list_all (\<lambda>s. 0 < s) (sizes ns) \<and> v = Ragged rs \<and> length rs = total_size ns"
  then have "list_all (\<lambda>i. i < length rs) (cumsum_exclusive 0 (sizes ns))"
    using starts_in_range [of "sizes ns"] by (simp add: total_size_def)
  with a assms show "gather_first_node g n fv fn
      = Inr (Ragged (map (\<lambda>c. rs ! sum_list (take c (sizes ns))) [0..<length (sizes ns)]))"
    by (simp add: gather_first_node_def check_scalar_ok assert_positive_def framework_def
          cumsum_exclusive_eq comp_def)
next
  assume "0 \<in> set (sizes ns)"
  then have "\<not> list_all (\<lambda>s. 0 < s) (sizes ns)" by (auto simp: list_all_iff)
  with assms show "gather_first_node g n fv fn = Inl FrameworkError"
    by (simp add: gather_first_node_def check_scalar_ok assert_positive_def)
qed

theorem gather_first_node_reads_component_starts_witness:
  "gather_first_node g0 ''paper'' None (Some ''h'') = Inr (Dense [10, 30])
   \<and> gather_first_node g1 ''paper'' None (Some ''h'') = Inl FrameworkError"
proof -
  have r0: "resolve_value (features paper0) None (Some ''h'') = Inr (Dense [10, 20, 30])"
    and r1: "resolve_value (features paper1) None (Some ''h'') = Inr (Dense [10, 20, 30])"
    by (simp_all add: paper0_def paper1_def lookup_def)
  have l1: "rank g1 = 0" "lookup (node_sets g1) ''paper'' = Inr paper1"
    by (simp_all add: g1_def g0_def lookup_def)
  have p: "list_all (\<lambda>s. 0 < s) (sizes paper0)
             \<and> Dense [10, 20, 30] = Dense [10, 20, 30 :: nat]
             \<and> length [10, 20, 30 :: nat] = total_size paper0"
    by (simp add: paper0_def total_size_def)
  have z: "0 \<in> set (sizes paper1)" by (simp add: paper1_def)
  have e: "map (\<lambda>c. [10, 20, 30 :: nat] ! sum_list (take c (sizes paper0))) [0..<length (sizes paper0)]
             = [10, 30]"
    by code_simp
  from gather_first_node_reads_component_starts [OF g0_lookups(1) g0_lookups(2) r0,
      where xs = "[10, 20, 30]"] p e
  have "gather_first_node g0 ''paper'' None (Some ''h'') = Inr (Dense [10, 30])"
    by simp
  moreover from gather_first_node_reads_component_starts [OF l1 r1] z
  have "gather_first_node g1 ''paper'' None (Some ''h'') = Inl FrameworkError"
    by blast
  ultimately show ?thesis by blast
qed

subsection \<open>Shuffling the components\<close>

lemma mset_insert_at [simp]: "mset (insert_at k x ys) = add_mset x (mset ys)"
proof -
  have "mset (take k ys) + mset (drop k ys) = mset ys"
    by (metis append_take_drop_id mset_append)
  then show ?thesis by (simp add: insert_at_def)
qed

lemma mset_shuffle_with [simp]: "mset (shuffle_with draws xs) = mset xs"
  by (induction xs arbitrary: draws) simp_all

lemma length_shuffle_with [simp]: "length (shuffle_with draws xs) = length xs"
  using mset_shuffle_with [of draws xs] by (metis size_mset)

lemma length_value_rowids_aux:
  "length (concat (map (\<lambda>(i, r). replicate (length r) i) (zip is rs))) = length (concat rs)"
  if "length is = length rs"
  using that by (induction "is" rs rule: list_induct2) simp_all

lemma length_value_rowids [simp]: "length (value_rowids rs) = length (concat rs)"
  by (simp add: value_rowids_def length_value_rowids_aux)

lemma mset_tf_argsort [simp]: "mset (tf_argsort ks) = mset [0..<length ks]"
  by (simp add: tf_argsort_def)

lemma tf_argsort_in_range: "list_all (\<lambda>i. i < length ks) (tf_argsort ks)"
proof -
  have "set (tf_argsort ks) = set [0..<length ks]"
    by (simp add: tf_argsort_def)
  then show ?thesis by (simp add: list_all_iff)
qed

lemma mset_gather_permutation:
  assumes "mset perm = mset [0..<length vs]"
  shows "mset (map (\<lambda>i. vs ! i) perm) = mset vs"
proof -
  have "mset (map (\<lambda>i. vs ! i) perm) = image_mset (\<lambda>i. vs ! i) (mset perm)" by simp
  also have "\<dots> = mset (map (\<lambda>i. vs ! i) [0..<length vs])" using assms by simp
  also have "\<dots> = mset vs" by (simp add: map_nth)
  finally show ?thesis .
qed

lemma with_values_lengths:
  "length (concat rs) \<le> length new \<Longrightarrow> map length (with_values rs new) = map length rs"
  by (induction rs arbitrary: new) simp_all

lemma concat_with_values:
  "length new = length (concat rs) \<Longrightarrow> concat (with_values rs new) = new"
proof (induction rs arbitrary: new)
  case Nil
  then show ?case by simp
next
  case (Cons r rs)
  then have "concat (with_values rs (drop (length r) new)) = drop (length r) new" by simp
  then show ?case by simp
qed

lemma shuffle_feature_cases:
  assumes "map_of fs k = Some v"
  shows "(v = OtherTensor \<and> shuffle_feature fs k draws = Inl (ValueError (UnsupportedFeature k)))
       \<or> (\<exists>v' draws'. shuffle_feature fs k draws = Inr (v', draws') \<and> is_shuffle_of v v')"
proof (cases v)
  case (Dense xs)
  with assms show ?thesis
    by (simp add: shuffle_feature_def lookup_def tf_random_shuffle_def)
next
  case (Ragged rs)
  let ?ids = "shuffle_with draws (value_rowids rs)"
  let ?perm = "tf_argsort ?ids"
  let ?new = "map (\<lambda>i. concat rs ! i) ?perm"
  have len: "length ?ids = length (concat rs)" by simp
  have inr: "list_all (\<lambda>i. i < length (concat rs)) ?perm"
    using tf_argsort_in_range [of ?ids] by (simp only: len)
  have perm: "mset ?perm = mset [0..<length (concat rs)]"
    using mset_tf_argsort [of ?ids] by (simp only: len)
  have new: "mset ?new = mset (concat rs)"
    by (rule mset_gather_permutation [OF perm])
  have lnew: "length ?new = length (concat rs)"
    using new by (metis size_mset)
  have sf: "shuffle_feature fs k draws
          = Inr (Ragged (with_values rs ?new), drop (length (value_rowids rs)) draws)"
    using assms Ragged inr
    by (simp add: shuffle_feature_def lookup_def tf_random_shuffle_def ragged_values_def
          framework_def)
  have "is_shuffle_of (Ragged rs) (Ragged (with_values rs ?new))"
    using new lnew by (simp add: with_values_lengths concat_with_values del: length_map)
  with sf Ragged show ?thesis by blast
next
  case OtherTensor
  with assms show ?thesis by (simp add: shuffle_feature_def lookup_def)
qed


lemma shuffle_feature_names_cases:
  assumes "\<forall>k\<in>set ks. map_of fs k \<noteq> None"
  shows "(case shuffle_feature_names fs ks draws of
            Inr (out, draws') \<Rightarrow>
              map fst out = ks
              \<and> (\<forall>k\<in>set ks. map_of fs k \<noteq> Some OtherTensor)
              \<and> (\<forall>k v'. (k, v') \<in> set out \<longrightarrow> (\<exists>v. map_of fs k = Some v \<and> is_shuffle_of v v'))
          | Inl e \<Rightarrow>
              \<exists>k\<in>set ks. e = ValueError (UnsupportedFeature k) \<and> map_of fs k = Some OtherTensor)"
  using assms
proof (induction ks arbitrary: draws)
  case Nil
  then show ?case by simp
next
  case (Cons k ks)
  then obtain v where v: "map_of fs k = Some v" by auto
  from shuffle_feature_cases [OF v, of draws] show ?case
  proof
    assume "v = OtherTensor \<and> shuffle_feature fs k draws = Inl (ValueError (UnsupportedFeature k))"
    with v show ?thesis by simp
  next
    assume "\<exists>v' draws'. shuffle_feature fs k draws = Inr (v', draws') \<and> is_shuffle_of v v'"
    then obtain v' draws' where s: "shuffle_feature fs k draws = Inr (v', draws')"
      and r: "is_shuffle_of v v'" by blast
    from r have nv: "v \<noteq> OtherTensor" by (cases v) auto
    from Cons.prems have "\<forall>k\<in>set ks. map_of fs k \<noteq> None" by simp
    from Cons.IH [OF this, of draws'] show ?thesis
      using s r v nv by (auto split: sum.splits)
  qed
qed


lemma supported_field_iff: "supported_field v \<longleftrightarrow> v \<noteq> OtherTensor"
  by (cases v) simp_all

lemma supported_features_iff:
  "supported_features fs \<longleftrightarrow> (\<forall>k\<in>set (map fst fs). map_of fs k \<noteq> Some OtherTensor)"
  by (auto simp: supported_features_def list_all_iff supported_field_iff split: option.splits)

lemma shuffle_features_cases:
  "(case shuffle_features fs draws of
      Inr (out, draws') \<Rightarrow> supported_features fs \<and> features_shuffled fs out
    | Inl e \<Rightarrow> \<not> supported_features fs \<and> (\<exists>k. e = ValueError (UnsupportedFeature k)))"
proof -
  have dom: "\<forall>k\<in>set (map fst fs). map_of fs k \<noteq> None"
    by (simp add: map_of_eq_None_iff)
  note N = shuffle_feature_names_cases [OF dom, of draws]
  show ?thesis
  proof (cases "shuffle_feature_names fs (map fst fs) draws")
    case (Inl e)
    with N show ?thesis
      by (auto simp: shuffle_features_def supported_features_iff)
  next
    case (Inr r)
    obtain out draws' where r: "r = (out, draws')" by (cases r)
    from N Inr r have keys: "map fst out = map fst fs"
      and sup: "\<forall>k\<in>set (map fst fs). map_of fs k \<noteq> Some OtherTensor"
      and rel: "\<forall>k v'. (k, v') \<in> set out \<longrightarrow> (\<exists>v. map_of fs k = Some v \<and> is_shuffle_of v v')"
      by simp_all
    have "rel_option is_shuffle_of (map_of fs k) (map_of out k)" if "k \<in> set (map fst fs)" for k
    proof -
      from that keys have "k \<in> fst ` set out" by (metis set_map)
      then obtain v' where v': "map_of out k = Some v'"
        by (cases "map_of out k") (auto simp: map_of_eq_None_iff)
      then have "(k, v') \<in> set out" by (rule map_of_SomeD)
      with rel obtain v where "map_of fs k = Some v" "is_shuffle_of v v'" by blast
      with v' show ?thesis by simp
    qed
    then have "features_shuffled fs out"
      using keys by (simp add: features_shuffled_def list_all_iff)
    with sup Inr r show ?thesis
      by (simp add: shuffle_features_def supported_features_iff)
  qed
qed

lemma shuffle_sets_cases:
  "(case shuffle_sets sets draws of
      Inr (out, draws') \<Rightarrow>
        list_all (\<lambda>(n, p). supported_features (features p)) sets
        \<and> list_all2 (\<lambda>(n, p) (n', fs). n' = n \<and> features_shuffled (features p) fs) sets out
    | Inl e \<Rightarrow>
        \<not> list_all (\<lambda>(n, p). supported_features (features p)) sets
        \<and> (\<exists>k. e = ValueError (UnsupportedFeature k)))"
proof (induction sets arbitrary: draws)
  case Nil
  then show ?case by simp
next
  case (Cons a sets)
  obtain n p where a: "a = (n, p)" by (cases a)
  note F = shuffle_features_cases [of "features p" draws]
  show ?case
  proof (cases "shuffle_features (features p) draws")
    case (Inl e)
    with F a show ?thesis by auto
  next
    case (Inr r)
    obtain fs draws' where r: "r = (fs, draws')" by (cases r)
    from Cons.IH [of draws'] F Inr r a show ?thesis
      by (auto split: sum.splits)
  qed
qed

lemma map_of_replace_in_sets:
  "map_of (replace_in_sets sets new) n
     = map_option (\<lambda>p. case map_of new n of Some fs \<Rightarrow> p\<lparr>features := fs\<rparr> | None \<Rightarrow> p)
         (map_of sets n)"
  by (induction sets) (auto simp: replace_in_sets_def split: option.splits)

lemma map_fst_replace_in_sets [simp]: "map fst (replace_in_sets sets new) = map fst sets"
  by (induction sets) (auto simp: replace_in_sets_def)

lemma map_of_aligned:
  assumes "list_all2 (\<lambda>(n, p) (n', fs). n' = n \<and> Q p fs) sets out"
    and "map_of sets n = Some p"
  shows "\<exists>fs. map_of out n = Some fs \<and> Q p fs"
  using assms by (induction sets out rule: list_all2_induct) (auto split: if_splits)

lemma replace_in_sets_shuffled:
  assumes "list_all2 (\<lambda>(n, p) (n', fs). n' = n \<and> features_shuffled (features p) fs) sets out"
  shows "sets_shuffled sets (replace_in_sets sets out)"
proof -
  have "rel_option piece_shuffled (map_of sets n) (map_of (replace_in_sets sets out) n)"
    if "n \<in> set (map fst sets)" for n
  proof -
    from that obtain p where p: "map_of sets n = Some p"
      by (cases "map_of sets n") (auto simp: map_of_eq_None_iff)
    from map_of_aligned [OF assms p] obtain fs
      where fs: "map_of out n = Some fs" "features_shuffled (features p) fs" by blast
    then show ?thesis
      by (simp add: map_of_replace_in_sets p piece_shuffled_def)
  qed
  then show ?thesis by (simp add: sets_shuffled_def list_all_iff)
qed

text \<open>
  C10. On a scalar graph tensor all of whose features are dense or ragged,
  \<^verbatim>\<open>shuffle_scalar_components\<close> returns a graph tensor that differs from the input in
  feature values only: the same node sets and edge sets under the same names, with their
  sizes and adjacency, and the same feature names. A dense feature comes back with its
  rows rearranged; a ragged feature keeps its row lengths and has its values rearranged
  over the rows. A feature that is neither dense nor ragged makes the call raise the
  \<^verbatim>\<open>ValueError\<close> of \<^verbatim>\<open>_shuffle_features\<close>.
\<close>

theorem shuffle_scalar_components_changes_features_only:
  assumes "rank g = 0"
  shows "(all_supported g \<longrightarrow>
            (\<exists>g' draws'. shuffle_scalar_components g draws = Inr (g', draws')
               \<and> g' = g\<lparr>gt_context := gt_context g', node_sets := node_sets g',
                        edge_sets := edge_sets g'\<rparr>
               \<and> piece_shuffled (gt_context g) (gt_context g')
               \<and> sets_shuffled (node_sets g) (node_sets g')
               \<and> sets_shuffled (edge_sets g) (edge_sets g')))
       \<and> (\<not> all_supported g \<longrightarrow>
            (\<exists>k. shuffle_scalar_components g draws = Inl (ValueError (UnsupportedFeature k))))"
proof -
  note C = shuffle_features_cases [of "features (gt_context g)" draws]
  show ?thesis
  proof (cases "shuffle_features (features (gt_context g)) draws")
    case (Inl e)
    with C assms show ?thesis
      by (auto simp: shuffle_scalar_components_def check_scalar_ok all_supported_def)
  next
    case c: (Inr rc)
    obtain cf d1 where rc: "rc = (cf, d1)" by (cases rc)
    from C c rc have csup: "supported_features (features (gt_context g))"
      and cshuf: "features_shuffled (features (gt_context g)) cf" by simp_all
    note N = shuffle_sets_cases [of "node_sets g" d1]
    show ?thesis
    proof (cases "shuffle_sets (node_sets g) d1")
      case (Inl e)
      with N c rc assms show ?thesis
        by (auto simp: shuffle_scalar_components_def check_scalar_ok all_supported_def)
    next
      case n: (Inr rn)
      obtain nf d2 where rn: "rn = (nf, d2)" by (cases rn)
      from N n rn have nsup: "list_all (\<lambda>(n, p). supported_features (features p)) (node_sets g)"
        and nshuf: "list_all2 (\<lambda>(n, p) (n', fs). n' = n \<and> features_shuffled (features p) fs)
                      (node_sets g) nf" by simp_all
      note E = shuffle_sets_cases [of "edge_sets g" d2]
      show ?thesis
      proof (cases "shuffle_sets (edge_sets g) d2")
        case (Inl e)
        with E c rc n rn assms show ?thesis
          by (auto simp: shuffle_scalar_components_def check_scalar_ok all_supported_def)
      next
        case e: (Inr re)
        obtain ef d3 where re: "re = (ef, d3)" by (cases re)
        from E e re have esup: "list_all (\<lambda>(n, p). supported_features (features p)) (edge_sets g)"
          and eshuf: "list_all2 (\<lambda>(n, p) (n', fs). n' = n \<and> features_shuffled (features p) fs)
                        (edge_sets g) ef" by simp_all
        let ?g' = "replace_features g cf nf ef"
        have res: "shuffle_scalar_components g draws = Inr (?g', d3)"
          using assms c rc n rn e re
          by (simp add: shuffle_scalar_components_def check_scalar_ok)
        have sup: "all_supported g"
          using csup nsup esup by (simp add: all_supported_def)
        have frame: "?g' = g\<lparr>gt_context := gt_context ?g', node_sets := node_sets ?g',
                        edge_sets := edge_sets ?g'\<rparr>"
          by (simp add: replace_features_def)
        have ctx: "piece_shuffled (gt_context g) (gt_context ?g')"
          using cshuf by (simp add: replace_features_def piece_shuffled_def)
        have ns: "sets_shuffled (node_sets g) (node_sets ?g')"
          using replace_in_sets_shuffled [OF nshuf] by (simp add: replace_features_def)
        have es: "sets_shuffled (edge_sets g) (edge_sets ?g')"
          using replace_in_sets_shuffled [OF eshuf] by (simp add: replace_features_def)
        from res sup frame ctx ns es show ?thesis by blast
      qed
    qed
  qed
qed

theorem shuffle_scalar_components_changes_features_only_witness:
  "(\<exists>g' draws'. shuffle_scalar_components g2 [5, 4, 3, 2, 1, 7, 8, 9, 6] = Inr (g', draws')
       \<and> g' = g2\<lparr>gt_context := gt_context g', node_sets := node_sets g',
                 edge_sets := edge_sets g'\<rparr>
       \<and> piece_shuffled (gt_context g2) (gt_context g')
       \<and> sets_shuffled (node_sets g2) (node_sets g')
       \<and> sets_shuffled (edge_sets g2) (edge_sets g'))
   \<and> (\<exists>k. shuffle_scalar_components g3 [5, 4, 3, 2, 1, 7, 8, 9, 6]
              = Inl (ValueError (UnsupportedFeature k)))"
proof -
  have r: "rank g2 = 0" "rank g3 = 0" by (simp_all add: g2_def g3_def g0_def)
  have s2: "all_supported g2"
    by (simp add: all_supported_def supported_features_def g2_def g0_def paper0_def cites0_def)
  have s3: "\<not> all_supported g3"
    by (simp add: all_supported_def supported_features_def g3_def g0_def paper0_def cites0_def)
  from shuffle_scalar_components_changes_features_only [OF r(1), of "[5, 4, 3, 2, 1, 7, 8, 9, 6]"]
    shuffle_scalar_components_changes_features_only [OF r(2), of "[5, 4, 3, 2, 1, 7, 8, 9, 6]"]
    s2 s3
  show ?thesis by blast
qed

subsection \<open>The adaptation horizon\<close>

lemma step_after_steps [simp]: "step (snd (after_steps kern state m)) = m"
  by (induction m) (auto simp: bootstrap_results_def one_step_def Let_def split: prod.splits)

lemma adaptation_frozen_step:
  assumes "num_adaptation_steps kern \<le> m"
  shows "adaptation (snd (after_steps kern state (Suc m)))
           = adaptation (snd (after_steps kern state m))"
proof -
  obtain s r where sr: "after_steps kern state m = (s, r)"
    by (cases "after_steps kern state m")
  then have "step r = m" using step_after_steps [of kern state m] by simp
  with assms sr show ?thesis by (simp add: one_step_def Let_def)
qed

text \<open>
  C9. With \<^verbatim>\<open>num_adaptation_steps = n\<close>, each of the first \<open>n\<close> calls of \<^verbatim>\<open>one_step\<close>
  after \<^verbatim>\<open>bootstrap_results\<close> applies the update to the adaptation accumulators, and no
  later call changes them: after \<open>m \<ge> n\<close> calls the accumulators, and so
  \<^verbatim>\<open>max_trajectory_length\<close>, are what they were after the \<open>n\<close>-th call.
\<close>

theorem adaptation_freezes_after_horizon:
  "(m < num_adaptation_steps kern \<longrightarrow>
      adaptation (snd (after_steps kern state (Suc m)))
        = update_accumulators kern (fst (after_steps kern state m))
            (fst (after_steps kern state (Suc m)))
            (adaptation (snd (after_steps kern state m))))
   \<and> (num_adaptation_steps kern \<le> m \<longrightarrow>
      adaptation (snd (after_steps kern state m))
        = adaptation (snd (after_steps kern state (num_adaptation_steps kern)))
      \<and> max_trajectory_length (adaptation (snd (after_steps kern state m)))
        = max_trajectory_length
            (adaptation (snd (after_steps kern state (num_adaptation_steps kern)))))"
proof (intro conjI impI)
  assume lt: "m < num_adaptation_steps kern"
  obtain s r where sr: "after_steps kern state m = (s, r)"
    by (cases "after_steps kern state m")
  then have "step r = m" using step_after_steps [of kern state m] by simp
  with lt sr show "adaptation (snd (after_steps kern state (Suc m)))
        = update_accumulators kern (fst (after_steps kern state m))
            (fst (after_steps kern state (Suc m)))
            (adaptation (snd (after_steps kern state m)))"
    by (simp add: one_step_def Let_def)
next
  assume le: "num_adaptation_steps kern \<le> m"
  then show frozen: "adaptation (snd (after_steps kern state m))
        = adaptation (snd (after_steps kern state (num_adaptation_steps kern)))"
  proof (induction m)
    case 0
    then show ?case by simp
  next
    case (Suc m)
    show ?case
    proof (cases "num_adaptation_steps kern = Suc m")
      case True
      then show ?thesis by simp
    next
      case False
      with Suc.prems have "num_adaptation_steps kern \<le> m" by simp
      with Suc.IH adaptation_frozen_step [of kern m state] show ?thesis by simp
    qed
  qed
  then show "max_trajectory_length (adaptation (snd (after_steps kern state m)))
        = max_trajectory_length
            (adaptation (snd (after_steps kern state (num_adaptation_steps kern))))"
    by simp
qed

theorem adaptation_freezes_after_horizon_witness:
  "max_trajectory_length (adaptation (snd (after_steps kernel0 0 0))) = 0
   \<and> max_trajectory_length (adaptation (snd (after_steps kernel0 0 1))) = 3
   \<and> max_trajectory_length (adaptation (snd (after_steps kernel0 0 2))) = 3
   \<and> adaptation (snd (after_steps kernel0 0 5)) = adaptation (snd (after_steps kernel0 0 1))"
proof -
  have n: "num_adaptation_steps kernel0 = 1" by (simp add: kernel0_def)
  have a0: "max_trajectory_length (adaptation (snd (after_steps kernel0 0 0))) = 0"
    by (simp add: kernel0_def bootstrap_results_def)
  have s0: "fst (after_steps kernel0 0 0) = 0" by simp
  have s1: "fst (after_steps kernel0 0 (Suc 0)) = 3"
    by (simp add: kernel0_def one_step_def bootstrap_results_def Let_def)
  from adaptation_freezes_after_horizon [of 0 kernel0 0] n
  have "adaptation (snd (after_steps kernel0 0 (Suc 0)))
          = update_accumulators kernel0 (fst (after_steps kernel0 0 0))
              (fst (after_steps kernel0 0 (Suc 0))) (adaptation (snd (after_steps kernel0 0 0)))"
    by simp
  then have a1: "max_trajectory_length (adaptation (snd (after_steps kernel0 0 1))) = 3"
    using a0 unfolding s0 s1 by (simp add: kernel0_def)
  from adaptation_freezes_after_horizon [of 2 kernel0 0] n
  have f2: "adaptation (snd (after_steps kernel0 0 2)) = adaptation (snd (after_steps kernel0 0 1))"
    by simp
  from adaptation_freezes_after_horizon [of 5 kernel0 0] n
  have f5: "adaptation (snd (after_steps kernel0 0 5)) = adaptation (snd (after_steps kernel0 0 1))"
    by simp
  from a0 a1 f2 f5 show ?thesis by simp
qed

end
